theory Spec2Isabelle
  imports
    Complex_Main
    "HOL-Library.Multiset"
    "HOL-Library.Char_ord"
    "HOL-Library.List_Lexorder"
begin

section \<open>Food-waste dashboard: the data layer\<close>

text \<open>
  The development embeds the pure data functions of the dashboard: \<open>filterData\<close>,
  \<open>getRegionData\<close>, \<open>getComparisonData\<close> and \<open>getTopWasteCountries\<close> of the data
  service, and \<open>generateTrendData\<close>, \<open>getGlobalTrendData\<close> and
  \<open>getRegionalTrendData\<close> of \<open>trendData.ts\<close>.

  Numbers. A JavaScript \<open>number\<close> held in a record is modelled as a \<open>real\<close>: a finite
  value, with exact arithmetic. Rounding errors of IEEE doubles, \<open>NaN\<close> inputs and signed
  zeros are outside the model. Counts, years and \<open>m49Code\<close> are integers. Where the source
  divides and nothing in the function keeps the divisor from being zero, the quotient is a
  \<open>real option\<close>, \<open>None\<close> standing for the non-finite result (\<open>NaN\<close> or an infinity)
  that JavaScript produces instead of raising.

  A parameter with a default value (\<open>count = 10\<close>, \<open>years = 5\<close>) and an optional
  parameter or field is an \<open>option\<close>, \<open>None\<close> for \<open>undefined\<close>.
\<close>

subsection \<open>Types (types.ts)\<close>

datatype ConfidenceLevel = VeryLowConfidence | LowConfidence | MediumConfidence | HighConfidence

datatype WasteType = Combined | Household | Retail | FoodService

record FoodWasteData =
  country :: string
  combinedFigures :: real
  householdEstimatePerCapita :: real
  householdEstimateTotal :: real
  retailEstimatePerCapita :: real
  retailEstimateTotal :: real
  foodServiceEstimatePerCapita :: real
  foodServiceEstimateTotal :: real
  confidenceInEstimate :: ConfidenceLevel
  m49Code :: int
  region :: string
  source :: string

text \<open>
  The fields of the other records carry a prefix, since a field name can belong to one
  record only: \<open>opt_\<close> for \<open>FilterOptions\<close>, \<open>rd_\<close> for \<open>RegionData\<close>, \<open>wd_\<close> for
  \<open>WasteDistribution\<close>, \<open>cd_\<close> for \<open>ComparisonData\<close>, \<open>tp_\<close> for
  \<open>TrendDataPoint\<close> and \<open>ct_\<close> for \<open>CountryTrendData\<close>. Every field of
  \<open>FilterOptions\<close> is optional.
\<close>

record FilterOptions =
  opt_region :: "string option"
  opt_confidence :: "ConfidenceLevel option"
  opt_minWaste :: "real option"
  opt_maxWaste :: "real option"
  opt_wasteType :: "WasteType option"

record RegionData =
  rd_region :: string
  rd_averageCombinedFigures :: real
  rd_totalCountries :: nat
  rd_totalHouseholdWaste :: real
  rd_totalRetailWaste :: real
  rd_totalFoodServiceWaste :: real

text \<open>
  The shares of a \<open>WasteDistribution\<close> are quotients by a sum that may be zero, and the
  metrics of the points that \<open>getGlobalTrendData\<close> returns are quotients by a count:
  both are \<open>real option\<close>. The points of a country's series hold finite numbers. So
  \<open>TrendDataPoint\<close> has the type of its metrics as a parameter.
\<close>

record WasteDistribution =
  wd_household :: "real option"
  wd_retail :: "real option"
  wd_foodService :: "real option"

record ComparisonData =
  cd_country :: string
  cd_combinedFigures :: real
  cd_wasteSources :: WasteDistribution

record 'n TrendDataPoint =
  tp_year :: int
  tp_combinedFigures :: 'n
  tp_householdEstimatePerCapita :: 'n
  tp_retailEstimatePerCapita :: 'n
  tp_foodServiceEstimatePerCapita :: 'n

record CountryTrendData =
  ct_country :: string
  ct_region :: string
  ct_trendData :: "real TrendDataPoint list"

subsection \<open>The JavaScript library functions the source calls\<close>

text \<open>
  \<open>Array.prototype.sort\<close> with a comparator. ECMAScript requires the sort to be stable,
  and for a consistent comparator (as all comparators here are, on finite numbers) the
  result is then determined: the sorted permutation in which elements that compare equal
  keep their order. The model is the insertion sort that computes it; an element goes
  before the first element of the sorted rest that it does not compare greater than.
\<close>

fun sortInsert :: "('a \<Rightarrow> 'a \<Rightarrow> real) \<Rightarrow> 'a \<Rightarrow> 'a list \<Rightarrow> 'a list" where
  "sortInsert cmp x [] = [x]"
| "sortInsert cmp x (y # ys) = (if cmp x y \<le> 0 then x # y # ys else y # sortInsert cmp x ys)"

fun js_sort :: "('a \<Rightarrow> 'a \<Rightarrow> real) \<Rightarrow> 'a list \<Rightarrow> 'a list" where
  "js_sort cmp [] = []"
| "js_sort cmp (x # xs) = sortInsert cmp x (js_sort cmp xs)"

text \<open>
  \<open>Array.prototype.slice(start, end)\<close> for integer arguments: a negative index counts
  from the end of the array, and both indices are clamped to the array.
\<close>

definition js_slice :: "'a list \<Rightarrow> int \<Rightarrow> int \<Rightarrow> 'a list" where
  "js_slice xs start end =
     (let len = int (length xs);
          k = (if start < 0 then max (len + start) 0 else min start len);
          final = (if end < 0 then max (len + end) 0 else min end len)
      in take (nat (final - k)) (drop (nat k) xs))"

text \<open>
  A \<open>Set\<close> and a \<open>Map\<close> iterate in insertion order: they are lists of the elements,
  and of the entries, in that order. \<open>new Set(array)\<close> adds the elements from left to
  right; \<open>Map.set\<close> on a key that is present replaces the value where the entry is.
\<close>

definition Set_add :: "'a list \<Rightarrow> 'a \<Rightarrow> 'a list" where
  "Set_add s x = (if x \<in> set s then s else s @ [x])"

definition Set_from :: "'a list \<Rightarrow> 'a list" where
  "Set_from xs = foldl Set_add [] xs"

definition Map_has :: "('k \<times> 'v) list \<Rightarrow> 'k \<Rightarrow> bool" where
  "Map_has m k = (k \<in> set (map fst m))"

definition Map_get :: "('k \<times> 'v) list \<Rightarrow> 'k \<Rightarrow> 'v option" where
  "Map_get m k = map_of m k"

fun Map_set :: "('k \<times> 'v) list \<Rightarrow> 'k \<Rightarrow> 'v \<Rightarrow> ('k \<times> 'v) list" where
  "Map_set [] k v = [(k, v)]"
| "Map_set ((k', v') # m) k v = (if k' = k then (k, v) # m else (k', v') # Map_set m k v)"

text \<open>Division of finite numbers: a zero divisor gives no finite value.\<close>

definition js_div :: "real \<Rightarrow> real \<Rightarrow> real option" where
  "js_div x y = (if y = 0 then None else Some (x / y))"

text \<open>
  \<open>Number(x.toFixed(1))\<close>: \<open>toFixed\<close> takes the integer \<open>n\<close> for which \<open>n / 10\<close> is
  closest to \<open>x\<close>, the larger one of two, after it has set the sign of a negative \<open>x\<close>
  aside; that is rounding to the nearest tenth, a tie away from zero.
\<close>

definition toFixed1 :: "real \<Rightarrow> real" where
  "toFixed1 x =
     (if x < 0 then - (real_of_int \<lfloor>- x * 10 + 1 / 2\<rfloor> / 10)
      else real_of_int \<lfloor>x * 10 + 1 / 2\<rfloor> / 10)"

text \<open>
  \<open>Array.prototype.sort\<close> without a comparator compares the elements as strings, by
  code units. \<open>js_toString\<close> is the decimal notation of an integer (the notation of a
  number below \<open>10\<^sup>2\<^sup>1\<close> in absolute value); \<open>digitChar\<close> is only applied to a digit,
  an index within the string of the ten digits. The order on strings is the lexicographic
  order on characters by their codes.
\<close>

definition digitChar :: "nat \<Rightarrow> char" where
  "digitChar d = ''0123456789'' ! d"

function natToString :: "nat \<Rightarrow> string" where
  "natToString n =
     (if n < 10 then [digitChar n] else natToString (n div 10) @ [digitChar (n mod 10)])"
  by pat_completeness auto
termination
  by (relation "measure id") auto

declare natToString.simps [simp del]

definition js_toString :: "int \<Rightarrow> string" where
  "js_toString i = (if i < 0 then CHR ''-'' # natToString (nat (- i)) else natToString (nat i))"

definition defaultCompare :: "int \<Rightarrow> int \<Rightarrow> real" where
  "defaultCompare x y =
     (let xString = js_toString x; yString = js_toString y
      in if xString < yString then - 1 else if yString < xString then 1 else 0)"

subsection \<open>filterData\<close>

text \<open>
  \<open>if (options.region)\<close> tests truthiness: the region filter runs when the field is
  present and not the empty string. The literals of \<open>ConfidenceLevel\<close> and
  \<open>WasteType\<close> are all non-empty, hence truthy when present. The two bounds are tested
  with \<open>!== undefined\<close>. The \<open>switch\<close> on the waste type is \<open>projectWasteType\<close>,
  whose default case (\<open>combined\<close>) changes nothing.
\<close>

definition projectWasteType :: "WasteType \<Rightarrow> FoodWasteData \<Rightarrow> FoodWasteData" where
  "projectWasteType wt item =
     (case wt of
        Household \<Rightarrow> item\<lparr>combinedFigures := householdEstimatePerCapita item\<rparr>
      | Retail \<Rightarrow> item\<lparr>combinedFigures := retailEstimatePerCapita item\<rparr>
      | FoodService \<Rightarrow> item\<lparr>combinedFigures := foodServiceEstimatePerCapita item\<rparr>
      | Combined \<Rightarrow> item)"

definition filterData :: "FoodWasteData list \<Rightarrow> FilterOptions option \<Rightarrow> FoodWasteData list" where
  "filterData data options =
     (case options of
        None \<Rightarrow> data
      | Some opts \<Rightarrow>
          (let filteredData = data;
               filteredData =
                 (case opt_region opts of
                    None \<Rightarrow> filteredData
                  | Some r \<Rightarrow>
                      if r = [] then filteredData
                      else filter (\<lambda>item. region item = r) filteredData);
               filteredData =
                 (case opt_confidence opts of
                    None \<Rightarrow> filteredData
                  | Some c \<Rightarrow> filter (\<lambda>item. confidenceInEstimate item = c) filteredData);
               filteredData =
                 (case opt_minWaste opts of
                    None \<Rightarrow> filteredData
                  | Some lo \<Rightarrow> filter (\<lambda>item. combinedFigures item \<ge> lo) filteredData);
               filteredData =
                 (case opt_maxWaste opts of
                    None \<Rightarrow> filteredData
                  | Some hi \<Rightarrow> filter (\<lambda>item. combinedFigures item \<le> hi) filteredData);
               filteredData =
                 (case opt_wasteType opts of
                    None \<Rightarrow> filteredData
                  | Some wt \<Rightarrow> map (projectWasteType wt) filteredData)
           in filteredData))"

text \<open>
  The predicates of the four filters, one per criterion, and their conjunction
  \<open>keeps\<close>, for stating the results.
\<close>

definition regionOk :: "FilterOptions \<Rightarrow> FoodWasteData \<Rightarrow> bool" where
  "regionOk opts item =
     (case opt_region opts of None \<Rightarrow> True | Some r \<Rightarrow> r = [] \<or> region item = r)"

definition confidenceOk :: "FilterOptions \<Rightarrow> FoodWasteData \<Rightarrow> bool" where
  "confidenceOk opts item =
     (case opt_confidence opts of None \<Rightarrow> True | Some c \<Rightarrow> confidenceInEstimate item = c)"

definition withinBounds :: "FilterOptions \<Rightarrow> FoodWasteData \<Rightarrow> bool" where
  "withinBounds opts item =
     ((case opt_minWaste opts of None \<Rightarrow> True | Some lo \<Rightarrow> lo \<le> combinedFigures item) \<and>
      (case opt_maxWaste opts of None \<Rightarrow> True | Some hi \<Rightarrow> combinedFigures item \<le> hi))"

definition keeps :: "FilterOptions \<Rightarrow> FoodWasteData \<Rightarrow> bool" where
  "keeps opts = (\<lambda>item. regionOk opts item \<and> confidenceOk opts item \<and> withinBounds opts item)"

subsection \<open>getRegionData\<close>

text \<open>
  The first loop fills \<open>regionMap\<close>; \<open>groupStep\<close> is its body. The array that
  \<open>regionMap.get\<close> returns is the one stored in the map, so \<open>push\<close> on it changes the
  entry of the map: the model stores the extended array under the key. The second loop
  maps each entry to its summary, \<open>regionSummary\<close>, adding up from left to right. The
  divisor \<open>totalCountries\<close> is the length of a group, which is never empty (shown
  below), and the division is the division of reals.
\<close>

definition groupStep ::
  "(string \<times> FoodWasteData list) list \<Rightarrow> FoodWasteData \<Rightarrow> (string \<times> FoodWasteData list) list" where
  "groupStep regionMap item =
     (let regionMap =
            (if \<not> Map_has regionMap (region item) then Map_set regionMap (region item) []
             else regionMap)
      in case Map_get regionMap (region item) of
           None \<Rightarrow> regionMap
         | Some regionItems \<Rightarrow> Map_set regionMap (region item) (regionItems @ [item]))"

definition regionSummary :: "string \<times> FoodWasteData list \<Rightarrow> RegionData" where
  "regionSummary entry =
     (let region = fst entry; regionItems = snd entry;
          totalCountries = length regionItems;
          totalCombinedFigures = foldl (\<lambda>total item. total + combinedFigures item) 0 regionItems;
          totalHouseholdWaste =
            foldl (\<lambda>total item. total + householdEstimatePerCapita item) 0 regionItems;
          totalRetailWaste = foldl (\<lambda>total item. total + retailEstimatePerCapita item) 0 regionItems;
          totalFoodServiceWaste =
            foldl (\<lambda>total item. total + foodServiceEstimatePerCapita item) 0 regionItems
      in \<lparr>rd_region = region,
          rd_averageCombinedFigures = totalCombinedFigures / real totalCountries,
          rd_totalCountries = totalCountries,
          rd_totalHouseholdWaste = totalHouseholdWaste,
          rd_totalRetailWaste = totalRetailWaste,
          rd_totalFoodServiceWaste = totalFoodServiceWaste\<rparr>)"

definition getRegionData :: "FoodWasteData list \<Rightarrow> RegionData list" where
  "getRegionData data =
     (let regionMap = foldl groupStep [] data;
          regionData = map regionSummary regionMap
      in js_sort (\<lambda>a b. rd_averageCombinedFigures b - rd_averageCombinedFigures a) regionData)"

text \<open>The summaries in the iteration order of the map, before the final sort.\<close>

definition regionSummaries :: "FoodWasteData list \<Rightarrow> RegionData list" where
  "regionSummaries data = map regionSummary (foldl groupStep [] data)"

subsection \<open>getTopWasteCountries\<close>

definition getTopWasteCountries :: "FoodWasteData list \<Rightarrow> int option \<Rightarrow> FoodWasteData list" where
  "getTopWasteCountries data count' =
     js_slice (js_sort (\<lambda>a b. combinedFigures b - combinedFigures a) data) 0
       (case count' of None \<Rightarrow> 10 | Some n \<Rightarrow> n)"

subsection \<open>getComparisonData\<close>

text \<open>
  \<open>comparisonEntry\<close> is the function mapped over the filtered records.
  \<open>countries.includes\<close> is membership in the list of names.
\<close>

definition comparisonEntry :: "FoodWasteData \<Rightarrow> ComparisonData" where
  "comparisonEntry item =
     (let total = householdEstimatePerCapita item + retailEstimatePerCapita item +
                  foodServiceEstimatePerCapita item
      in \<lparr>cd_country = country item,
          cd_combinedFigures = combinedFigures item,
          cd_wasteSources =
            \<lparr>wd_household = js_div (householdEstimatePerCapita item) total,
             wd_retail = js_div (retailEstimatePerCapita item) total,
             wd_foodService = js_div (foodServiceEstimatePerCapita item) total\<rparr>\<rparr>)"

definition getComparisonData :: "FoodWasteData list \<Rightarrow> string list \<Rightarrow> ComparisonData list" where
  "getComparisonData data countries =
     (let filteredData = filter (\<lambda>item. country item \<in> set countries) data
      in map comparisonEntry filteredData)"

subsection \<open>generateTrendData (trendData.ts)\<close>

text \<open>
  The function reads the clock and draws random numbers. Both are parameters of the
  model: \<open>currentYear\<close> is the value of \<open>new Date().getFullYear()\<close>, and \<open>rand k\<close> is
  the value of the call number \<open>k\<close> of \<open>Math.random()\<close>, counted from 0; the loops pass
  the number of draws made so far along. \<open>yearLoop\<close> is the \<open>for\<close> loop over the years
  with the array \<open>trendData\<close> it fills, \<open>trendPoint\<close> the point it pushes, and
  \<open>mapCountries\<close> the \<open>map\<close> over the records.

  The source has no \<open>throw\<close> and calls nothing that throws: the model returns \<open>Inr\<close> on
  every input, and the type of errors is there to say so.
\<close>

datatype error = InvalidArgument

definition randomFactor :: "real \<Rightarrow> real" where
  "randomFactor random = 1 + (random * 0.1 - 0.05)"

definition yearFactor :: "int \<Rightarrow> real" where
  "yearFactor yearDiff = 1 + real_of_int yearDiff * 0.05"

definition trendPoint :: "FoodWasteData \<Rightarrow> int \<Rightarrow> int \<Rightarrow> real \<Rightarrow> real TrendDataPoint" where
  "trendPoint item currentYear year random =
     (let yearDiff = currentYear - year in
      \<lparr>tp_year = year,
       tp_combinedFigures =
         toFixed1 (combinedFigures item * yearFactor yearDiff * randomFactor random),
       tp_householdEstimatePerCapita =
         toFixed1 (householdEstimatePerCapita item * yearFactor yearDiff * randomFactor random),
       tp_retailEstimatePerCapita =
         toFixed1 (retailEstimatePerCapita item * yearFactor yearDiff * randomFactor random),
       tp_foodServiceEstimatePerCapita =
         toFixed1 (foodServiceEstimatePerCapita item * yearFactor yearDiff * randomFactor random)\<rparr>)"

function yearLoop ::
  "FoodWasteData \<Rightarrow> int \<Rightarrow> (nat \<Rightarrow> real) \<Rightarrow> int \<Rightarrow> real TrendDataPoint list \<times> nat \<Rightarrow>
   real TrendDataPoint list \<times> nat" where
  "yearLoop item currentYear rand year (trendData, k) =
     (if year \<le> currentYear
      then yearLoop item currentYear rand (year + 1)
             (trendData @ [trendPoint item currentYear year (rand k)], Suc k)
      else (trendData, k))"
  by pat_completeness auto
termination
  by (relation "measure (\<lambda>(item, currentYear, rand, year, st). nat (currentYear + 1 - year))") auto

declare yearLoop.simps [simp del]

fun mapCountries ::
  "int \<Rightarrow> int \<Rightarrow> (nat \<Rightarrow> real) \<Rightarrow> nat \<Rightarrow> FoodWasteData list \<Rightarrow> CountryTrendData list" where
  "mapCountries currentYear startYear rand k [] = []"
| "mapCountries currentYear startYear rand k (item # rest) =
     (case yearLoop item currentYear rand startYear ([], k) of
        (trendData, k') \<Rightarrow>
          \<lparr>ct_country = country item,
           ct_region = region item,
           ct_trendData = js_sort (\<lambda>a b. real_of_int (tp_year a - tp_year b)) trendData\<rparr>
          # mapCountries currentYear startYear rand k' rest)"

definition generateTrendData ::
  "int \<Rightarrow> (nat \<Rightarrow> real) \<Rightarrow> FoodWasteData list \<Rightarrow> int option \<Rightarrow> error + CountryTrendData list" where
  "generateTrendData currentYear rand currentData years =
     (let years = (case years of None \<Rightarrow> 5 | Some n \<Rightarrow> n);
          startYear = currentYear - years + 1
      in Inr (mapCountries currentYear startYear rand 0 currentData))"

text \<open>
  The series of one record whose first point uses the draw of number \<open>k\<close>, in closed
  form, for stating what \<open>mapCountries\<close> computes.
\<close>

definition seriesOf :: "int \<Rightarrow> int \<Rightarrow> (nat \<Rightarrow> real) \<Rightarrow> nat \<Rightarrow> FoodWasteData \<Rightarrow> CountryTrendData" where
  "seriesOf currentYear startYear rand k item =
     \<lparr>ct_country = country item,
      ct_region = region item,
      ct_trendData =
        map (\<lambda>j. trendPoint item currentYear (startYear + int j) (rand (k + j)))
          [0..<nat (currentYear + 1 - startYear)]\<rparr>"

subsection \<open>getGlobalTrendData and getRegionalTrendData\<close>

text \<open>
  \<open>allYears\<close> is the constant \<open>years\<close> of the source: the years of all points, put
  into a \<open>Set\<close>, spread into an array and sorted with \<open>sort()\<close>, that is, as strings.
  \<open>yearDataPoints\<close> is the constant of that name, for one year, and \<open>yearAverage\<close> the
  function mapped over the years: each metric is the sum of the year's points, from 0 and
  from left to right, divided by their number \<open>count\<close> and passed through
  \<open>toFixed(1)\<close>.
\<close>

definition allYears :: "CountryTrendData list \<Rightarrow> int list" where
  "allYears trendData =
     js_sort defaultCompare
       (Set_from (concat (map (\<lambda>c. map tp_year (ct_trendData c)) trendData)))"

definition yearDataPoints :: "CountryTrendData list \<Rightarrow> int \<Rightarrow> real TrendDataPoint list" where
  "yearDataPoints trendData year =
     concat (map (\<lambda>c. filter (\<lambda>point. tp_year point = year) (ct_trendData c)) trendData)"

definition yearAverage :: "CountryTrendData list \<Rightarrow> int \<Rightarrow> real option TrendDataPoint" where
  "yearAverage trendData year =
     (let yearDataPoints = yearDataPoints trendData year;
          count' = length yearDataPoints
      in \<lparr>tp_year = year,
          tp_combinedFigures =
            map_option toFixed1
              (js_div (foldl (\<lambda>sum point. sum + tp_combinedFigures point) 0 yearDataPoints)
                 (real count')),
          tp_householdEstimatePerCapita =
            map_option toFixed1
              (js_div (foldl (\<lambda>sum point. sum + tp_householdEstimatePerCapita point) 0 yearDataPoints)
                 (real count')),
          tp_retailEstimatePerCapita =
            map_option toFixed1
              (js_div (foldl (\<lambda>sum point. sum + tp_retailEstimatePerCapita point) 0 yearDataPoints)
                 (real count')),
          tp_foodServiceEstimatePerCapita =
            map_option toFixed1
              (js_div (foldl (\<lambda>sum point. sum + tp_foodServiceEstimatePerCapita point) 0 yearDataPoints)
                 (real count'))\<rparr>)"

definition getGlobalTrendData :: "CountryTrendData list \<Rightarrow> real option TrendDataPoint list" where
  "getGlobalTrendData trendData = map (yearAverage trendData) (allYears trendData)"

definition getRegionalTrendData ::
  "CountryTrendData list \<Rightarrow> string \<Rightarrow> real option TrendDataPoint list" where
  "getRegionalTrendData trendData region' =
     (let regionData = filter (\<lambda>c. ct_region c = region') trendData
      in getGlobalTrendData regionData)"

subsection \<open>Example data\<close>

text \<open>
  The records A and B of the worked example of the specification, both of region X, and
  a record C of region Y.
\<close>

definition exampleRecord :: "string \<Rightarrow> real \<Rightarrow> real \<Rightarrow> real \<Rightarrow> real \<Rightarrow> FoodWasteData" where
  "exampleRecord name combined household retail foodService =
     \<lparr>country = name, combinedFigures = combined,
      householdEstimatePerCapita = household, householdEstimateTotal = 0,
      retailEstimatePerCapita = retail, retailEstimateTotal = 0,
      foodServiceEstimatePerCapita = foodService, foodServiceEstimateTotal = 0,
      confidenceInEstimate = HighConfidence, m49Code = 0, region = ''X'', source = ''''\<rparr>"

definition recordA :: FoodWasteData where
  "recordA = exampleRecord ''A'' 100 60 20 20"

definition recordB :: FoodWasteData where
  "recordB = exampleRecord ''B'' 50 30 10 10"

definition recordC :: FoodWasteData where
  "recordC = (exampleRecord ''C'' 200 120 50 30)\<lparr>region := ''Y''\<rparr>"

definition noOptions :: FilterOptions where
  "noOptions = \<lparr>opt_region = None, opt_confidence = None, opt_minWaste = None,
                 opt_maxWaste = None, opt_wasteType = None\<rparr>"

text \<open>
  Series whose points have the same value in all four metrics: one set with the years 999
  and 1000, one with the years 2025 and 2026.
\<close>

definition constPoint :: "int \<Rightarrow> real \<Rightarrow> real TrendDataPoint" where
  "constPoint y v = \<lparr>tp_year = y, tp_combinedFigures = v, tp_householdEstimatePerCapita = v,
     tp_retailEstimatePerCapita = v, tp_foodServiceEstimatePerCapita = v\<rparr>"

definition exampleSeries :: "CountryTrendData list" where
  "exampleSeries =
     [\<lparr>ct_country = ''A'', ct_region = ''X'', ct_trendData = [constPoint 999 1, constPoint 1000 1]\<rparr>,
      \<lparr>ct_country = ''B'', ct_region = ''X'', ct_trendData = [constPoint 1000 1]\<rparr>,
      \<lparr>ct_country = ''C'', ct_region = ''Y'', ct_trendData = [constPoint 1000 2]\<rparr>]"

definition recentSeries :: "CountryTrendData list" where
  "recentSeries =
     [\<lparr>ct_country = ''A'', ct_region = ''X'', ct_trendData = [constPoint 2026 1]\<rparr>,
      \<lparr>ct_country = ''B'', ct_region = ''X'', ct_trendData = [constPoint 2025 1, constPoint 2026 1]\<rparr>,
      \<lparr>ct_country = ''C'', ct_region = ''Y'', ct_trendData = [constPoint 2026 2]\<rparr>]"

section \<open>Results\<close>

subsection \<open>filterData\<close>

lemma filterData_Some:
  "filterData data (Some opts) =
     (case opt_wasteType opts of
        None \<Rightarrow> filter (\<lambda>item. regionOk opts item \<and> confidenceOk opts item \<and> withinBounds opts item) data
      | Some wt \<Rightarrow>
          map (projectWasteType wt)
            (filter (\<lambda>item. regionOk opts item \<and> confidenceOk opts item \<and> withinBounds opts item) data))"
  by (auto simp: filterData_def regionOk_def confidenceOk_def withinBounds_def Let_def
      split: option.splits intro!: filter_cong arg_cong [where f = "map _"])

lemma filterData_keeps:
  "filterData data (Some (opts :: FilterOptions)) =
     (case opt_wasteType opts of
        None \<Rightarrow> filter (keeps opts) data
      | Some wt \<Rightarrow> map (projectWasteType wt) (filter (keeps opts) data))"
  unfolding keeps_def by (rule filterData_Some)

text \<open>
  Claim C1. Filtering comes before projection: under a projection other than
  \<open>combined\<close>, \<open>filterData\<close> keeps exactly the records whose original
  \<open>combinedFigures\<close> lies within the inclusive bounds (and which pass the region and
  confidence criteria), in their order, and only then overwrites \<open>combinedFigures\<close> of
  each survivor by the source figure of the projection. On the two records A and B,
  \<open>{minWaste: 60}\<close> returns A alone, and with the projection \<open>household\<close> it still
  returns A alone, its headline figure now the household figure 60.
\<close>

theorem filter_then_project:
  "(\<forall>data opts.
      (opt_wasteType opts = Some Household \<longrightarrow>
         filterData data (Some opts) =
           map (\<lambda>item. item\<lparr>combinedFigures := householdEstimatePerCapita item\<rparr>)
             (filter (keeps opts) data)) \<and>
      (opt_wasteType opts = Some Retail \<longrightarrow>
         filterData data (Some opts) =
           map (\<lambda>item. item\<lparr>combinedFigures := retailEstimatePerCapita item\<rparr>)
             (filter (keeps opts) data)) \<and>
      (opt_wasteType opts = Some FoodService \<longrightarrow>
         filterData data (Some opts) =
           map (\<lambda>item. item\<lparr>combinedFigures := foodServiceEstimatePerCapita item\<rparr>)
             (filter (keeps opts) data))) \<and>
   filterData [recordA, recordB] (Some (noOptions\<lparr>opt_minWaste := Some 60\<rparr>)) = [recordA] \<and>
   filterData [recordA, recordB]
       (Some (noOptions\<lparr>opt_minWaste := Some 60, opt_wasteType := Some Household\<rparr>)) =
     [recordA\<lparr>combinedFigures := 60\<rparr>]"
proof -
  have "filterData [recordA, recordB] (Some (noOptions\<lparr>opt_minWaste := Some 60\<rparr>)) = [recordA]"
    by (simp add: filterData_keeps keeps_def regionOk_def confidenceOk_def withinBounds_def
        noOptions_def recordA_def recordB_def exampleRecord_def)
  moreover have "filterData [recordA, recordB]
       (Some (noOptions\<lparr>opt_minWaste := Some 60, opt_wasteType := Some Household\<rparr>)) =
     [recordA\<lparr>combinedFigures := 60\<rparr>]"
    by (simp add: filterData_keeps keeps_def regionOk_def confidenceOk_def withinBounds_def
        noOptions_def recordA_def recordB_def exampleRecord_def projectWasteType_def)
  ultimately show ?thesis
    by (simp add: filterData_keeps projectWasteType_def)
qed

text \<open>
  The theorem at a retail projection with an upper bound: A (100) is dropped on its original
  figure although its retail figure (20) is below the bound; B survives and is projected.
\<close>

theorem filter_then_project_witness:
  "opt_wasteType (noOptions\<lparr>opt_maxWaste := Some 60, opt_wasteType := Some Retail\<rparr>) = Some Retail \<and>
   filterData [recordA, recordB]
       (Some (noOptions\<lparr>opt_maxWaste := Some 60, opt_wasteType := Some Retail\<rparr>)) =
     [recordB\<lparr>combinedFigures := 10\<rparr>]"
proof -
  let ?o = "noOptions\<lparr>opt_maxWaste := Some 60, opt_wasteType := Some Retail\<rparr>"
  have h: "opt_wasteType ?o = Some Retail" by (simp add: noOptions_def)
  from filter_then_project
  have "opt_wasteType ?o = Some Retail \<longrightarrow>
         filterData [recordA, recordB] (Some ?o) =
           map (\<lambda>item. item\<lparr>combinedFigures := retailEstimatePerCapita item\<rparr>)
             (filter (keeps ?o) [recordA, recordB])"
    by blast
  with h show ?thesis
    by (simp add: keeps_def regionOk_def confidenceOk_def withinBounds_def
        noOptions_def recordA_def recordB_def exampleRecord_def)
qed

lemma projectWasteType_idem:
  "projectWasteType wt (projectWasteType wt item) = projectWasteType wt item"
  by (cases wt) (simp_all add: projectWasteType_def)

lemma regionOk_project: "regionOk opts (projectWasteType wt item) = regionOk opts item"
  by (cases wt) (simp_all add: projectWasteType_def regionOk_def split: option.splits)

lemma confidenceOk_project: "confidenceOk opts (projectWasteType wt item) = confidenceOk opts item"
  by (cases wt) (simp_all add: projectWasteType_def confidenceOk_def split: option.splits)

lemma filterData_twice:
  "filterData (filterData data (Some opts)) (Some opts) =
     (case opt_wasteType opts of
        None \<Rightarrow> filterData data (Some opts)
      | Some wt \<Rightarrow> filter (withinBounds opts) (filterData data (Some opts)))"
proof (cases "opt_wasteType opts")
  case None
  then show ?thesis by (simp add: filterData_keeps)
next
  case (Some wt)
  have "filter (keeps opts) (map (projectWasteType wt) (filter (keeps opts) data))
        = filter (withinBounds opts) (map (projectWasteType wt) (filter (keeps opts) data))"
    by (rule filter_cong) (auto simp: keeps_def regionOk_project confidenceOk_project)
  moreover have "map (projectWasteType wt) (filter (withinBounds opts) (map (projectWasteType wt) (filter (keeps opts) data)))
     = filter (withinBounds opts) (map (projectWasteType wt) (filter (keeps opts) data))"
    by (simp add: filter_map comp_def projectWasteType_idem)
  ultimately show ?thesis using Some by (simp add: filterData_keeps)
qed

lemma filter_eq_self_iff: "filter P xs = xs \<longleftrightarrow> (\<forall>x\<in>set xs. P x)"
  by (metis filter_id_conv)

text \<open>
  Claim C2, as amended. A second pass of \<open>filterData\<close> with the same criteria reads the
  figures the first pass has projected. So \<open>filterData\<close> is idempotent exactly when every
  record of the first result has its (possibly projected) \<open>combinedFigures\<close> within the
  bounds of the criteria; in particular for absent options, for criteria with no projection
  or the projection \<open>combined\<close>, and for criteria without numeric bounds.
\<close>

theorem filterData_idempotent_iff:
  "(filterData (filterData data None) None = filterData data None) \<and>
   ((filterData (filterData data (Some opts)) (Some opts) = filterData data (Some opts)) \<longleftrightarrow>
      (\<forall>item \<in> set (filterData data (Some opts)). withinBounds opts item)) \<and>
   (opt_wasteType opts = None \<or> opt_wasteType opts = Some Combined \<or>
      (opt_minWaste opts = None \<and> opt_maxWaste opts = None) \<longrightarrow>
    filterData (filterData data (Some opts)) (Some opts) = filterData data (Some opts))"
proof (intro conjI impI)
  show "filterData (filterData data None) None = filterData data None"
    by (simp add: filterData_def)
next
  show "(filterData (filterData data (Some opts)) (Some opts) = filterData data (Some opts)) \<longleftrightarrow>
      (\<forall>item \<in> set (filterData data (Some opts)). withinBounds opts item)"
  proof (cases "opt_wasteType opts")
    case None
    then show ?thesis by (auto simp: filterData_twice filterData_keeps keeps_def)
  next
    case (Some wt)
    then show ?thesis by (simp add: filterData_twice filter_eq_self_iff)
  qed
next
  assume a: "opt_wasteType opts = None \<or> opt_wasteType opts = Some Combined \<or>
      (opt_minWaste opts = None \<and> opt_maxWaste opts = None)"
  show "filterData (filterData data (Some opts)) (Some opts) = filterData data (Some opts)"
  proof (cases "opt_wasteType opts")
    case None
    then show ?thesis by (simp add: filterData_twice)
  next
    case (Some wt)
    have "\<forall>item \<in> set (filterData data (Some opts)). withinBounds opts item"
      using a Some
      by (auto simp: filterData_keeps keeps_def withinBounds_def projectWasteType_def
          split: option.splits)
    then show ?thesis using Some by (simp add: filterData_twice filter_eq_self_iff)
  qed
qed

text \<open>
  The theorem where its condition holds (a household projection, a region, no bounds), and
  where the condition on the projected figures decides.
\<close>

theorem filterData_idempotent_iff_witness:
  "(opt_minWaste (noOptions\<lparr>opt_region := Some ''X'', opt_wasteType := Some Household\<rparr>) = None \<and>
    opt_maxWaste (noOptions\<lparr>opt_region := Some ''X'', opt_wasteType := Some Household\<rparr>) = None) \<and>
   filterData (filterData [recordA, recordB]
       (Some (noOptions\<lparr>opt_region := Some ''X'', opt_wasteType := Some Household\<rparr>)))
       (Some (noOptions\<lparr>opt_region := Some ''X'', opt_wasteType := Some Household\<rparr>)) =
     filterData [recordA, recordB]
       (Some (noOptions\<lparr>opt_region := Some ''X'', opt_wasteType := Some Household\<rparr>)) \<and>
   filterData [recordA, recordB]
       (Some (noOptions\<lparr>opt_region := Some ''X'', opt_wasteType := Some Household\<rparr>)) =
     [recordA\<lparr>combinedFigures := 60\<rparr>, recordB\<lparr>combinedFigures := 30\<rparr>]"
proof -
  let ?o = "noOptions\<lparr>opt_region := Some ''X'', opt_wasteType := Some Household\<rparr>"
  have h: "opt_minWaste ?o = None \<and> opt_maxWaste ?o = None"
    by (simp add: noOptions_def)
  have r: "filterData [recordA, recordB] (Some ?o) =
     [recordA\<lparr>combinedFigures := 60\<rparr>, recordB\<lparr>combinedFigures := 30\<rparr>]"
    by (simp add: filterData_keeps keeps_def regionOk_def confidenceOk_def withinBounds_def
        noOptions_def recordA_def recordB_def exampleRecord_def projectWasteType_def)
  from filterData_idempotent_iff [of "[recordA, recordB]" ?o] h
  have "filterData (filterData [recordA, recordB] (Some ?o)) (Some ?o) =
        filterData [recordA, recordB] (Some ?o)"
    by blast
  with h r show ?thesis by simp
qed

text \<open>
  Claim C2, as stated, fails where a bound meets a projection: with \<open>{minWaste: 70,
  wasteType: household}\<close> record A (100) passes and is projected to 60; the second pass
  drops it.
\<close>

theorem filterData_not_idempotent:
  "filterData (filterData [recordA]
       (Some (noOptions\<lparr>opt_minWaste := Some 70, opt_wasteType := Some Household\<rparr>)))
       (Some (noOptions\<lparr>opt_minWaste := Some 70, opt_wasteType := Some Household\<rparr>)) = [] \<and>
   filterData [recordA]
       (Some (noOptions\<lparr>opt_minWaste := Some 70, opt_wasteType := Some Household\<rparr>)) =
     [recordA\<lparr>combinedFigures := 60\<rparr>] \<and>
   filterData (filterData [recordA]
       (Some (noOptions\<lparr>opt_minWaste := Some 70, opt_wasteType := Some Household\<rparr>)))
       (Some (noOptions\<lparr>opt_minWaste := Some 70, opt_wasteType := Some Household\<rparr>)) \<noteq>
   filterData [recordA]
       (Some (noOptions\<lparr>opt_minWaste := Some 70, opt_wasteType := Some Household\<rparr>))"
  by (simp add: filterData_keeps keeps_def regionOk_def confidenceOk_def withinBounds_def
        noOptions_def recordA_def exampleRecord_def projectWasteType_def)

subsection \<open>Array.prototype.sort\<close>

lemma mset_sortInsert: "mset (sortInsert cmp x ys) = add_mset x (mset ys)"
  by (induction ys) simp_all

lemma mset_js_sort: "mset (js_sort cmp xs) = mset xs"
  by (induction xs) (simp_all add: mset_sortInsert)

lemma set_js_sort: "set (js_sort cmp xs) = set xs"
  by (metis mset_js_sort set_mset_mset)

lemma length_js_sort: "length (js_sort cmp xs) = length xs"
  by (metis mset_js_sort size_mset)

lemma sortInsert_insort_key:
  "(\<And>y. y \<in> set ys \<Longrightarrow> (cmp x y \<le> 0) = (key x \<le> key y)) \<Longrightarrow>
   sortInsert cmp x ys = insort_key key x ys"
  by (induction ys) simp_all

lemma js_sort_sort_key:
  "(\<And>x y. x \<in> set xs \<Longrightarrow> y \<in> set xs \<Longrightarrow> (cmp x y \<le> 0) = (key x \<le> key y)) \<Longrightarrow>
   js_sort cmp xs = sort_key key xs"
proof (induction xs)
  case Nil
  show ?case by simp
next
  case (Cons x xs)
  have ih: "js_sort cmp xs = sort_key key xs"
    by (rule Cons.IH) (simp_all add: Cons.prems)
  have "sortInsert cmp x (sort_key key xs) = insort_key key x (sort_key key xs)"
    by (rule sortInsert_insort_key) (simp add: Cons.prems)
  with ih show ?case by simp
qed

lemma js_sort_descending:
  "js_sort (\<lambda>a b. f b - f a) xs = sort_key (\<lambda>a. - f a) xs" for f :: "'a \<Rightarrow> real"
  by (rule js_sort_sort_key) simp

lemma sorted_wrt_descending:
  "sorted_wrt (\<lambda>a b. f a \<ge> f b) (js_sort (\<lambda>a b. f b - f a) xs)" for f :: "'a \<Rightarrow> real"
proof -
  have "sorted (map (\<lambda>a. - f a) (sort_key (\<lambda>a. - f a) xs))"
    by (rule sorted_sort_key)
  then show ?thesis
    by (simp add: js_sort_descending sorted_map)
qed

lemma sum_list_js_sort:
  "sum_list (map f (js_sort cmp xs)) = sum_list (map f xs)" for f :: "'a \<Rightarrow> nat"
proof -
  have "mset (map f (js_sort cmp xs)) = mset (map f xs)"
    by (simp add: mset_js_sort)
  then show ?thesis by (metis sum_mset_sum_list)
qed

subsection \<open>Set and Map in insertion order\<close>

lemma Set_from_snoc: "Set_from (xs @ [x]) = Set_add (Set_from xs) x"
  by (simp add: Set_from_def)

lemma set_Set_from: "set (Set_from xs) = set xs"
  by (induction xs rule: rev_induct) (auto simp: Set_from_snoc Set_add_def Set_from_def)

lemma distinct_Set_from: "distinct (Set_from xs)"
  by (induction xs rule: rev_induct) (auto simp: Set_from_snoc Set_add_def Set_from_def)

lemma Map_has_graph: "Map_has (map (\<lambda>k. (k, f k)) ks) k = (k \<in> set ks)"
  by (simp add: Map_has_def comp_def)

lemma Map_get_graph:
  "Map_get (map (\<lambda>k. (k, f k)) ks) k = (if k \<in> set ks then Some (f k) else None)"
  by (induction ks) (auto simp: Map_get_def)

lemma Map_set_graph_new:
  "k \<notin> set ks \<Longrightarrow> Map_set (map (\<lambda>k. (k, f k)) ks) k v = map (\<lambda>k. (k, f k)) ks @ [(k, v)]"
  by (induction ks) auto

lemma Map_set_graph_old:
  "k \<in> set ks \<Longrightarrow> distinct ks \<Longrightarrow>
   Map_set (map (\<lambda>k. (k, f k)) ks) k v = map (\<lambda>k'. (k', if k' = k then v else f k')) ks"
  by (induction ks) auto

subsection \<open>getRegionData\<close>

lemma groupStep_graph:
  assumes "distinct ks"
  shows "groupStep (map (\<lambda>k. (k, f k)) ks) item =
           map (\<lambda>k. (k, if k = region item then (if k \<in> set ks then f k else []) @ [item] else f k))
             (Set_add ks (region item))"
proof (cases "region item \<in> set ks")
  case True
  then show ?thesis using assms
    by (simp add: groupStep_def Map_has_graph Map_get_graph Map_set_graph_old Set_add_def)
next
  case False
  have "Map_get (map (\<lambda>k. (k, f k)) ks @ [(region item, [])]) (region item) = Some []"
    using False by (induction ks) (auto simp: Map_get_def)
  moreover have "Map_set (map (\<lambda>k. (k, f k)) ks @ [(region item, [])]) (region item) [item]
      = map (\<lambda>k. (k, f k)) ks @ [(region item, [item])]"
    using False by (induction ks) auto
  ultimately show ?thesis using False
    by (auto simp: groupStep_def Map_has_graph Map_set_graph_new Set_add_def)
qed

lemma foldl_groupStep:
  "foldl groupStep [] data =
     map (\<lambda>r. (r, filter (\<lambda>d. region d = r) data)) (Set_from (map region data))"
proof (induction data rule: rev_induct)
  case Nil
  show ?case by (simp add: Set_from_def)
next
  case (snoc x xs)
  let ?ks = "Set_from (map region xs)"
  have "foldl groupStep [] (xs @ [x]) =
        groupStep (map (\<lambda>r. (r, filter (\<lambda>d. region d = r) xs)) ?ks) x"
    by (simp add: snoc.IH)
  also have "\<dots> = map (\<lambda>k. (k, if k = region x
                 then (if k \<in> set ?ks then filter (\<lambda>d. region d = k) xs else []) @ [x]
                 else filter (\<lambda>d. region d = k) xs))
             (Set_add ?ks (region x))"
    by (rule groupStep_graph) (rule distinct_Set_from)
  also have "\<dots> = map (\<lambda>r. (r, filter (\<lambda>d. region d = r) (xs @ [x]))) (Set_add ?ks (region x))"
    by (rule map_cong) (auto simp: set_Set_from empty_filter_conv image_iff)
  finally show ?case by (simp add: Set_from_snoc)
qed

lemma sum_list_indicator:
  "distinct ks \<Longrightarrow> sum_list (map (\<lambda>k. if P k \<and> k = a then 1 else 0) ks) = (if a \<in> set ks \<and> P a then (1::nat) else 0)"
  by (induction ks) auto

lemma sum_list_group_sizes:
  "distinct ks \<Longrightarrow> g ` set xs \<subseteq> set ks \<Longrightarrow>
   sum_list (map (\<lambda>k. length (filter (\<lambda>d. g d = k) xs)) ks) = length xs"
proof (induction xs)
  case Nil
  show ?case by simp
next
  case (Cons x xs)
  have "sum_list (map (\<lambda>k. length (filter (\<lambda>d. g d = k) (x # xs))) ks)
      = sum_list (map (\<lambda>k. (if True \<and> k = g x then 1 else 0) + length (filter (\<lambda>d. g d = k) xs)) ks)"
    by (rule arg_cong [where f = sum_list], rule map_cong) auto
  also have "\<dots> = sum_list (map (\<lambda>k. if True \<and> k = g x then 1 else 0) ks)
                 + sum_list (map (\<lambda>k. length (filter (\<lambda>d. g d = k) xs)) ks)"
    by (simp only: sum_list_addf)
  also have "\<dots> = 1 + length xs"
    using Cons by (simp only: sum_list_indicator) auto
  finally show ?case by simp
qed

lemma foldl_add_sum_list:
  "foldl (\<lambda>total item. total + f item) a xs = a + sum_list (map f xs)" for a :: real
  by (induction xs arbitrary: a) simp_all

lemma regionSummary_group:
  "regionSummary (r, filter (\<lambda>d. region d = r) data) =
     \<lparr>rd_region = r,
      rd_averageCombinedFigures =
        sum_list (map combinedFigures (filter (\<lambda>d. region d = r) data)) /
          real (length (filter (\<lambda>d. region d = r) data)),
      rd_totalCountries = length (filter (\<lambda>d. region d = r) data),
      rd_totalHouseholdWaste = sum_list (map householdEstimatePerCapita (filter (\<lambda>d. region d = r) data)),
      rd_totalRetailWaste = sum_list (map retailEstimatePerCapita (filter (\<lambda>d. region d = r) data)),
      rd_totalFoodServiceWaste =
        sum_list (map foodServiceEstimatePerCapita (filter (\<lambda>d. region d = r) data))\<rparr>"
  by (simp add: regionSummary_def Let_def foldl_add_sum_list)

lemma regionSummaries_eq:
  "regionSummaries data =
     map (\<lambda>r. regionSummary (r, filter (\<lambda>d. region d = r) data)) (Set_from (map region data))"
  by (simp add: regionSummaries_def foldl_groupStep comp_def)

lemma getRegionData_eq:
  "getRegionData data =
     js_sort (\<lambda>a b. rd_averageCombinedFigures b - rd_averageCombinedFigures a) (regionSummaries data)"
  by (simp add: getRegionData_def regionSummaries_def Let_def)

lemma regions_regionSummaries:
  "map rd_region (regionSummaries data) = Set_from (map region data)"
  by (simp add: regionSummaries_eq comp_def regionSummary_group)

lemma counts_regionSummaries:
  "sum_list (map rd_totalCountries (regionSummaries data)) = length data"
proof -
  have "map rd_totalCountries (regionSummaries data)
      = map (\<lambda>r. length (filter (\<lambda>d. region d = r) data)) (Set_from (map region data))"
    by (simp add: regionSummaries_eq comp_def regionSummary_group)
  then show ?thesis
    by (simp add: sum_list_group_sizes distinct_Set_from set_Set_from)
qed

lemma member_regionSummaries:
  assumes "s \<in> set (regionSummaries data)"
  shows "rd_region s \<in> region ` set data \<and>
         s = regionSummary (rd_region s, filter (\<lambda>d. region d = rd_region s) data)"
  using assms by (auto simp: regionSummaries_eq set_Set_from regionSummary_group)

text \<open>
  Claim C3. The summaries returned by \<open>getRegionData\<close> are sorted non-increasing by
  \<open>averageCombinedFigures\<close>, and their \<open>totalCountries\<close> add up to the number of
  input records: the regions of the summaries are distinct and are exactly the regions that
  occur in the input, and each summary counts the records of its own region, at least one.
  This holds for every input list, the empty one included.
\<close>

theorem getRegionData_sorted_counts:
  "sorted_wrt (\<lambda>a b. rd_averageCombinedFigures a \<ge> rd_averageCombinedFigures b) (getRegionData data) \<and>
   sum_list (map rd_totalCountries (getRegionData data)) = length data \<and>
   distinct (map rd_region (getRegionData data)) \<and>
   set (map rd_region (getRegionData data)) = region ` set data \<and>
   (\<forall>s \<in> set (getRegionData data).
      rd_totalCountries s = length (filter (\<lambda>d. region d = rd_region s) data) \<and>
      1 \<le> rd_totalCountries s)"
proof (intro conjI ballI)
  show "sorted_wrt (\<lambda>a b. rd_averageCombinedFigures a \<ge> rd_averageCombinedFigures b) (getRegionData data)"
    unfolding getRegionData_eq by (rule sorted_wrt_descending)
  show "sum_list (map rd_totalCountries (getRegionData data)) = length data"
    unfolding getRegionData_eq by (simp only: sum_list_js_sort counts_regionSummaries)
  have m: "mset (map rd_region (getRegionData data)) = mset (Set_from (map region data))"
    unfolding getRegionData_eq by (simp add: mset_js_sort flip: regions_regionSummaries)
  show "distinct (map rd_region (getRegionData data))"
    using m distinct_Set_from [of "map region data"] by (metis mset_eq_imp_distinct_iff)
  show "set (map rd_region (getRegionData data)) = region ` set data"
    using m set_Set_from [of "map region data"] by (metis mset_eq_setD set_map)
  fix s assume "s \<in> set (getRegionData data)"
  then have s: "s \<in> set (regionSummaries data)"
    by (simp add: getRegionData_eq set_js_sort)
  from member_regionSummaries [OF s]
  have r: "rd_region s \<in> region ` set data"
    and e: "s = regionSummary (rd_region s, filter (\<lambda>d. region d = rd_region s) data)"
    by simp_all
  show c: "rd_totalCountries s = length (filter (\<lambda>d. region d = rd_region s) data)"
    by (subst e) (simp add: regionSummary_group)
  from r obtain d where "d \<in> set data" "region d = rd_region s" by auto
  then have "filter (\<lambda>d. region d = rd_region s) data \<noteq> []"
    by (auto simp: filter_empty_conv)
  then show "1 \<le> rd_totalCountries s"
    unfolding c by (simp add: Suc_le_eq)
qed


text \<open>
  Three records of two regions: region Y, met second, has the larger mean and comes
  first.
\<close>

lemma getRegionData_example:
  "getRegionData [recordA, recordC, recordB] =
     [\<lparr>rd_region = ''Y'', rd_averageCombinedFigures = 200, rd_totalCountries = 1,
       rd_totalHouseholdWaste = 120, rd_totalRetailWaste = 50, rd_totalFoodServiceWaste = 30\<rparr>,
      \<lparr>rd_region = ''X'', rd_averageCombinedFigures = 75, rd_totalCountries = 2,
       rd_totalHouseholdWaste = 90, rd_totalRetailWaste = 30, rd_totalFoodServiceWaste = 30\<rparr>]"
  by (simp add: getRegionData_def groupStep_def Map_has_def Map_get_def regionSummary_def Let_def
      recordA_def recordB_def recordC_def exampleRecord_def)

text \<open>The theorem on records A and B, both of region X: one summary, of mean 75.\<close>

theorem getRegionData_sorted_counts_witness:
  "getRegionData [recordA, recordB] =
     [\<lparr>rd_region = ''X'', rd_averageCombinedFigures = 75, rd_totalCountries = 2,
       rd_totalHouseholdWaste = 90, rd_totalRetailWaste = 30, rd_totalFoodServiceWaste = 30\<rparr>] \<and>
   sum_list (map rd_totalCountries (getRegionData [recordA, recordB])) = 2 \<and>
   length (filter (\<lambda>d. region d = ''X'') [recordA, recordB]) = 2"
proof -
  let ?s = "\<lparr>rd_region = ''X'', rd_averageCombinedFigures = 75, rd_totalCountries = 2,
       rd_totalHouseholdWaste = 90, rd_totalRetailWaste = 30, rd_totalFoodServiceWaste = 30\<rparr>"
  have e: "getRegionData [recordA, recordB] = [?s]"
    by (simp add: getRegionData_def groupStep_def Map_has_def Map_get_def regionSummary_def Let_def
      recordA_def recordB_def exampleRecord_def)
  then have m: "?s \<in> set (getRegionData [recordA, recordB])"
    by simp
  from getRegionData_sorted_counts [of "[recordA, recordB]"]
  have "sum_list (map rd_totalCountries (getRegionData [recordA, recordB])) = length [recordA, recordB]"
    and "\<forall>s \<in> set (getRegionData [recordA, recordB]).
      rd_totalCountries s = length (filter (\<lambda>d. region d = rd_region s) [recordA, recordB]) \<and>
      1 \<le> rd_totalCountries s"
    by blast+
  with m e show ?thesis by simp
qed

subsection \<open>getTopWasteCountries\<close>

lemma js_slice_0: "js_slice xs 0 e =
   take (nat (if e < 0 then max (int (length xs) + e) 0 else min e (int (length xs)))) xs"
  by (simp add: js_slice_def Let_def)

lemma getTopWasteCountries_all:
  "getTopWasteCountries data (Some (int (length data))) =
     js_sort (\<lambda>a b. combinedFigures b - combinedFigures a) data"
  by (simp add: getTopWasteCountries_def js_slice_0 length_js_sort)

lemma getTopWasteCountries_nonneg:
  "0 \<le> n \<Longrightarrow> getTopWasteCountries data (Some n) =
      take (nat n) (getTopWasteCountries data (Some (int (length data))))"
  by (simp add: getTopWasteCountries_all)
     (simp add: getTopWasteCountries_def js_slice_0 length_js_sort min_def)

lemma getTopWasteCountries_neg:
  "n < 0 \<Longrightarrow> getTopWasteCountries data (Some n) =
      take (length data - nat (- n)) (getTopWasteCountries data (Some (int (length data))))"
proof -
  assume n: "n < 0"
  have "nat (max (int (length data) + n) 0) = length data - nat (- n)"
    using n by (simp add: max_def) linarith
  then show ?thesis using n
    by (simp add: getTopWasteCountries_all)
       (simp add: getTopWasteCountries_def js_slice_0 length_js_sort)
qed

text \<open>
  Claim C4, as amended. With \<open>n\<close> at least the number of records,
  \<open>getTopWasteCountries\<close> returns all records, sorted descending by
  \<open>combinedFigures\<close>; with \<open>0 \<le> n\<close> it returns the first \<open>n\<close> of them, so nothing
  for \<open>n = 0\<close>. A negative \<open>n\<close> is passed to \<open>slice(0, n)\<close>, which counts it from
  the end of the array: the result is the sorted list without its last \<open>-n\<close> records,
  empty only when \<open>n \<le> -length\<close>.
\<close>

theorem getTopWasteCountries_slice:
  "mset (getTopWasteCountries data (Some (int (length data)))) = mset data \<and>
   sorted_wrt (\<lambda>a b. combinedFigures a \<ge> combinedFigures b)
     (getTopWasteCountries data (Some (int (length data)))) \<and>
   (int (length data) \<le> n \<longrightarrow>
      getTopWasteCountries data (Some n) = getTopWasteCountries data (Some (int (length data)))) \<and>
   (0 \<le> n \<longrightarrow>
      getTopWasteCountries data (Some n) =
        take (nat n) (getTopWasteCountries data (Some (int (length data))))) \<and>
   (n = 0 \<longrightarrow> getTopWasteCountries data (Some n) = []) \<and>
   (n < 0 \<longrightarrow>
      getTopWasteCountries data (Some n) =
        take (length data - nat (- n)) (getTopWasteCountries data (Some (int (length data))))) \<and>
   (n \<le> - int (length data) \<longrightarrow> getTopWasteCountries data (Some n) = [])"
proof (intro conjI impI)
  show "mset (getTopWasteCountries data (Some (int (length data)))) = mset data"
    by (simp add: getTopWasteCountries_all mset_js_sort)
  show "sorted_wrt (\<lambda>a b. combinedFigures a \<ge> combinedFigures b)
     (getTopWasteCountries data (Some (int (length data))))"
    unfolding getTopWasteCountries_all by (rule sorted_wrt_descending)
  show "getTopWasteCountries data (Some n) = getTopWasteCountries data (Some (int (length data)))"
    if "int (length data) \<le> n"
    using that by (simp add: getTopWasteCountries_def js_slice_0 length_js_sort)
  show "getTopWasteCountries data (Some n) =
        take (nat n) (getTopWasteCountries data (Some (int (length data))))" if "0 \<le> n"
    using that by (rule getTopWasteCountries_nonneg)
  show "getTopWasteCountries data (Some n) = []" if "n = 0"
    using that by (simp add: getTopWasteCountries_def js_slice_0)
  show "getTopWasteCountries data (Some n) =
        take (length data - nat (- n)) (getTopWasteCountries data (Some (int (length data))))"
    if "n < 0"
    using that by (rule getTopWasteCountries_neg)
  show "getTopWasteCountries data (Some n) = []" if "n \<le> - int (length data)"
    using that by (simp add: getTopWasteCountries_def js_slice_0 length_js_sort)
qed

text \<open>The theorem on the two records, for the counts 5, 1, 0, -1 and -2.\<close>

theorem getTopWasteCountries_slice_witness:
  "(2::int) \<le> 5 \<and> getTopWasteCountries [recordB, recordA] (Some 5) = [recordA, recordB] \<and>
   (0::int) \<le> 1 \<and> getTopWasteCountries [recordB, recordA] (Some 1) = [recordA] \<and>
   getTopWasteCountries [recordB, recordA] (Some 0) = [] \<and>
   (-1::int) < 0 \<and> getTopWasteCountries [recordB, recordA] (Some (-1)) = [recordA] \<and>
   getTopWasteCountries [recordB, recordA] (Some (-2)) = []"
proof -
  have full: "getTopWasteCountries [recordB, recordA] (Some (int (length [recordB, recordA]))) =
      [recordA, recordB]"
    by (simp add: getTopWasteCountries_def js_slice_def recordA_def recordB_def exampleRecord_def)
  have "getTopWasteCountries [recordB, recordA] (Some 5) = [recordA, recordB]"
    using getTopWasteCountries_slice [of "[recordB, recordA]" 5] full by simp
  moreover have "getTopWasteCountries [recordB, recordA] (Some 1) = [recordA]"
    using getTopWasteCountries_slice [of "[recordB, recordA]" 1] full by simp
  moreover have "getTopWasteCountries [recordB, recordA] (Some 0) = []"
    using getTopWasteCountries_slice [of "[recordB, recordA]" 0] by simp
  moreover have "getTopWasteCountries [recordB, recordA] (Some (-1)) = [recordA]"
    using getTopWasteCountries_slice [of "[recordB, recordA]" "-1"] full by simp
  moreover have "getTopWasteCountries [recordB, recordA] (Some (-2)) = []"
    using getTopWasteCountries_slice [of "[recordB, recordA]" "-2"] by simp
  ultimately show ?thesis by simp
qed

text \<open>
  Claim C4, as stated, fails for a negative count: \<open>n = -1\<close> on records A and B returns
  A, not the empty list.
\<close>

theorem getTopWasteCountries_negative_count:
  "getTopWasteCountries [recordA, recordB] (Some (-1)) = [recordA] \<and>
   getTopWasteCountries [recordA, recordB] (Some (-1)) \<noteq> []"
  by (simp add: getTopWasteCountries_def js_slice_def recordA_def recordB_def exampleRecord_def)

subsection \<open>getComparisonData\<close>

text \<open>
  Claim C5, as amended. \<open>getComparisonData\<close> filters the record list by membership in the
  requested names and maps over what is left: the entries come in the order of the record
  list, not of the names; a requested name with no record yields no entry, and nothing
  fails.
\<close>

theorem getComparisonData_data_order:
  "map cd_country (getComparisonData data countries) =
     filter (\<lambda>c. c \<in> set countries) (map country data) \<and>
   length (getComparisonData data countries) =
     length (filter (\<lambda>item. country item \<in> set countries) data) \<and>
   (\<forall>c \<in> set countries. c \<notin> country ` set data \<longrightarrow>
      c \<notin> set (map cd_country (getComparisonData data countries)))"
  by (auto simp: getComparisonData_def comparisonEntry_def Let_def filter_map comp_def)

text \<open>The theorem for the names B, Z, A on records A and B: Z is skipped, A comes first.\<close>

theorem getComparisonData_data_order_witness:
  "''Z'' \<in> set [''B'', ''Z'', ''A''] \<and> ''Z'' \<notin> country ` set [recordA, recordB] \<and>
   map cd_country (getComparisonData [recordA, recordB] [''B'', ''Z'', ''A'']) = [''A'', ''B''] \<and>
   ''Z'' \<notin> set (map cd_country (getComparisonData [recordA, recordB] [''B'', ''Z'', ''A'']))"
proof -
  have "map cd_country (getComparisonData [recordA, recordB] [''B'', ''Z'', ''A'']) =
     filter (\<lambda>c. c \<in> set [''B'', ''Z'', ''A'']) (map country [recordA, recordB])"
    using getComparisonData_data_order [of "[recordA, recordB]" "[''B'', ''Z'', ''A'']"] by blast
  then show ?thesis
    by (simp add: recordA_def recordB_def exampleRecord_def)
qed

text \<open>
  Claim C5, as stated, fails when the names are requested in another order than the
  records are stored: for the names B, A the entries are A, B.
\<close>

theorem getComparisonData_not_request_order:
  "map cd_country (getComparisonData [recordA, recordB] [''B'', ''A'']) = [''A'', ''B''] \<and>
   map cd_country (getComparisonData [recordA, recordB] [''B'', ''A'']) \<noteq> [''B'', ''A'']"
  by (simp add: getComparisonData_def comparisonEntry_def Let_def
      recordA_def recordB_def exampleRecord_def)

lemma comparisonEntry_shares:
  assumes "householdEstimatePerCapita item + retailEstimatePerCapita item +
           foodServiceEstimatePerCapita item \<noteq> 0"
  shows "cd_wasteSources (comparisonEntry item) =
     \<lparr>wd_household = Some (householdEstimatePerCapita item /
         (householdEstimatePerCapita item + retailEstimatePerCapita item +
          foodServiceEstimatePerCapita item)),
      wd_retail = Some (retailEstimatePerCapita item /
         (householdEstimatePerCapita item + retailEstimatePerCapita item +
          foodServiceEstimatePerCapita item)),
      wd_foodService = Some (foodServiceEstimatePerCapita item /
         (householdEstimatePerCapita item + retailEstimatePerCapita item +
          foodServiceEstimatePerCapita item))\<rparr>"
  using assms by (simp add: comparisonEntry_def Let_def js_div_def)

lemma total_nonzero:
  "0 \<le> h \<Longrightarrow> 0 \<le> r \<Longrightarrow> 0 \<le> f \<Longrightarrow> \<not> (h = 0 \<and> r = 0 \<and> f = 0) \<Longrightarrow> h + r + f \<noteq> 0"
  for h r f :: real
  by linarith

lemma shares_add_up: "t \<noteq> 0 \<Longrightarrow> h + r + f = t \<Longrightarrow> h / t + r / t + f / t = 1" for t :: real
  by (simp flip: add_divide_distrib)

text \<open>
  Claim C6. For a record of the list whose name is requested and whose three source
  figures are non-negative (as the data model has them) and not all zero, the entry
  \<open>getComparisonData\<close> produces for it has three finite shares, each the source figure
  divided by the sum of the three, and the shares add up to 1 (in exact arithmetic).
\<close>

theorem comparison_shares_sum_to_one:
  assumes "item \<in> set data" and "country item \<in> set countries"
    and "0 \<le> householdEstimatePerCapita item"
    and "0 \<le> retailEstimatePerCapita item"
    and "0 \<le> foodServiceEstimatePerCapita item"
    and "\<not> (householdEstimatePerCapita item = 0 \<and> retailEstimatePerCapita item = 0 \<and>
            foodServiceEstimatePerCapita item = 0)"
  shows "comparisonEntry item \<in> set (getComparisonData data countries) \<and>
     (\<exists>h r f.
        cd_wasteSources (comparisonEntry item) =
          \<lparr>wd_household = Some h, wd_retail = Some r, wd_foodService = Some f\<rparr> \<and>
        h = householdEstimatePerCapita item /
              (householdEstimatePerCapita item + retailEstimatePerCapita item +
               foodServiceEstimatePerCapita item) \<and>
        r = retailEstimatePerCapita item /
              (householdEstimatePerCapita item + retailEstimatePerCapita item +
               foodServiceEstimatePerCapita item) \<and>
        f = foodServiceEstimatePerCapita item /
              (householdEstimatePerCapita item + retailEstimatePerCapita item +
               foodServiceEstimatePerCapita item) \<and>
        h + r + f = 1)"
proof -
  let ?t = "householdEstimatePerCapita item + retailEstimatePerCapita item +
            foodServiceEstimatePerCapita item"
  have t: "?t \<noteq> 0"
    using assms(3-6) by (rule total_nonzero)
  have "comparisonEntry item \<in> set (getComparisonData data countries)"
    using assms(1,2) by (simp add: getComparisonData_def Let_def)
  moreover have "householdEstimatePerCapita item / ?t + retailEstimatePerCapita item / ?t +
      foodServiceEstimatePerCapita item / ?t = 1"
    using t by (rule shares_add_up) simp
  ultimately show ?thesis
    using comparisonEntry_shares [OF t] by simp
qed

text \<open>The theorem on record A: the shares are 0.6, 0.2 and 0.2.\<close>

theorem comparison_shares_sum_to_one_witness:
  "comparisonEntry recordA \<in> set (getComparisonData [recordA, recordB] [''A'', ''B'']) \<and>
   cd_wasteSources (comparisonEntry recordA) =
     \<lparr>wd_household = Some (3 / 5), wd_retail = Some (1 / 5), wd_foodService = Some (1 / 5)\<rparr> \<and>
   getComparisonData [recordA, recordB] [''A'', ''B''] =
     [\<lparr>cd_country = ''A'', cd_combinedFigures = 100,
       cd_wasteSources =
         \<lparr>wd_household = Some (3 / 5), wd_retail = Some (1 / 5), wd_foodService = Some (1 / 5)\<rparr>\<rparr>,
      \<lparr>cd_country = ''B'', cd_combinedFigures = 50,
       cd_wasteSources =
         \<lparr>wd_household = Some (3 / 5), wd_retail = Some (1 / 5), wd_foodService = Some (1 / 5)\<rparr>\<rparr>]"
proof -
  have "comparisonEntry recordA \<in> set (getComparisonData [recordA, recordB] [''A'', ''B''])"
    using comparison_shares_sum_to_one [of recordA "[recordA, recordB]" "[''A'', ''B'']"]
    by (simp add: recordA_def exampleRecord_def)
  then show ?thesis
    by (simp add: getComparisonData_def comparisonEntry_def Let_def js_div_def
      recordA_def recordB_def exampleRecord_def)
qed

subsection \<open>generateTrendData\<close>

lemma upt_map_shift:
  "map f [0..<Suc n] = f 0 # map (\<lambda>j. f (Suc j)) [0..<n]"
  by (simp only: upt_conv_Cons [of 0 "Suc n"] map_Suc_upt [symmetric]) (simp add: comp_def)

lemma yearLoop_eq:
  "yearLoop item currentYear rand year (trendData, k) =
     (trendData @ map (\<lambda>j. trendPoint item currentYear (year + int j) (rand (k + j)))
                    [0..<nat (currentYear + 1 - year)],
      k + nat (currentYear + 1 - year))"
proof (induction item currentYear rand year "(trendData, k)" arbitrary: trendData k
    rule: yearLoop.induct)
  case (1 item currentYear rand year trendData k)
  show ?case
  proof (cases "year \<le> currentYear")
    case True
    then have n: "nat (currentYear + 1 - year) = Suc (nat (currentYear + 1 - (year + 1)))"
      by simp
    have "yearLoop item currentYear rand year (trendData, k) =
          yearLoop item currentYear rand (year + 1)
             (trendData @ [trendPoint item currentYear year (rand k)], Suc k)"
      using True by (simp add: yearLoop.simps [of _ _ _ year])
    also have "\<dots> =
       ((trendData @ [trendPoint item currentYear year (rand k)]) @
          map (\<lambda>j. trendPoint item currentYear (year + 1 + int j) (rand (Suc k + j)))
            [0..<nat (currentYear + 1 - (year + 1))],
        Suc k + nat (currentYear + 1 - (year + 1)))"
      by (rule "1.hyps" [OF True])
    also have "\<dots> =
       (trendData @ map (\<lambda>j. trendPoint item currentYear (year + int j) (rand (k + j)))
                    [0..<nat (currentYear + 1 - year)],
        k + nat (currentYear + 1 - year))"
      unfolding n upt_map_shift by (simp add: ac_simps)
    finally show ?thesis .
  next
    case False
    then show ?thesis by (simp add: yearLoop.simps [of _ _ _ year])
  qed
qed

lemma tp_year_trendPoint [simp]: "tp_year (trendPoint item currentYear year random) = year"
  by (simp add: trendPoint_def Let_def)

lemma sorted_years: "sorted (map (\<lambda>j. y + int j) [0..<n])"
  by (simp add: sorted_map sorted_wrt_iff_nth_less)

lemma js_sort_years_id:
  "js_sort (\<lambda>a b. real_of_int (tp_year a - tp_year b))
     (map (\<lambda>j. trendPoint item currentYear (y + int j) (rand (k + j))) [0..<n])
   = map (\<lambda>j. trendPoint item currentYear (y + int j) (rand (k + j))) [0..<n]"
proof -
  let ?pts = "map (\<lambda>j. trendPoint item currentYear (y + int j) (rand (k + j))) [0..<n]"
  have "js_sort (\<lambda>a b. real_of_int (tp_year a - tp_year b)) ?pts = sort_key tp_year ?pts"
    by (rule js_sort_sort_key) simp
  moreover have "sorted (map tp_year ?pts)"
    using sorted_years [of y n] by (simp add: comp_def)
  ultimately show ?thesis
    by (simp only: sort_key_id_if_sorted)
qed

lemma mapCountries_Cons:
  "mapCountries currentYear startYear rand k (item # rest) =
     seriesOf currentYear startYear rand k item #
     mapCountries currentYear startYear rand (k + nat (currentYear + 1 - startYear)) rest"
  by (simp only: mapCountries.simps yearLoop_eq append_Nil prod.case seriesOf_def js_sort_years_id)

lemma length_mapCountries:
  "length (mapCountries currentYear startYear rand k items) = length items"
  by (induction items arbitrary: k) (simp_all add: mapCountries_Cons del: mapCountries.simps(2))

lemma nth_mapCountries:
  "i < length items \<Longrightarrow>
   mapCountries currentYear startYear rand k items ! i =
     seriesOf currentYear startYear rand (k + i * nat (currentYear + 1 - startYear)) (items ! i)"
proof (induction items arbitrary: k i)
  case Nil
  then show ?case by simp
next
  case (Cons item rest)
  show ?case
  proof (cases i)
    case 0
    then show ?thesis by (simp add: mapCountries_Cons del: mapCountries.simps(2))
  next
    case (Suc i')
    with Cons.prems have "i' < length rest" by simp
    from Cons.IH [OF this, of "k + nat (currentYear + 1 - startYear)"] Suc
    show ?thesis
      by (simp add: mapCountries_Cons add.assoc del: mapCountries.simps(2))
  qed
qed

lemma mapCountries_no_years:
  "currentYear < startYear \<Longrightarrow>
   mapCountries currentYear startYear rand k items =
     map (\<lambda>item. \<lparr>ct_country = country item, ct_region = region item, ct_trendData = []\<rparr>) items"
  by (induction items arbitrary: k)
     (simp_all add: mapCountries_Cons seriesOf_def del: mapCountries.simps(2))

lemma upt_5: "[0..<5] = [0, 1, 2, 3, 4]"
  by (simp add: upt_rec)

lemma toFixed1_tenths: "\<exists>n::int. toFixed1 x = real_of_int n / 10"
proof (cases "x < 0")
  case True
  then have "toFixed1 x = real_of_int (- \<lfloor>- x * 10 + 1 / 2\<rfloor>) / 10"
    by (simp add: toFixed1_def)
  then show ?thesis by blast
next
  case False
  then have "toFixed1 x = real_of_int \<lfloor>x * 10 + 1 / 2\<rfloor> / 10"
    by (simp add: toFixed1_def)
  then show ?thesis by blast
qed

lemma toFixed1_close: "\<bar>toFixed1 x - x\<bar> \<le> 1 / 20"
proof (cases "x < 0")
  case True
  define f where "f = real_of_int \<lfloor>- x * 10 + 1 / 2\<rfloor>"
  have "f \<le> - x * 10 + 1 / 2" and "- x * 10 + 1 / 2 < f + 1"
    unfolding f_def by linarith+
  then have "- (f / 10) - x \<le> 1 / 20" and "- (1 / 20) \<le> - (f / 10) - x"
    by linarith+
  moreover have "toFixed1 x = - (f / 10)"
    using True by (simp only: toFixed1_def f_def if_True)
  ultimately show ?thesis
    by (simp only: abs_le_iff) simp
next
  case False
  define f where "f = real_of_int \<lfloor>x * 10 + 1 / 2\<rfloor>"
  have "f \<le> x * 10 + 1 / 2" and "x * 10 + 1 / 2 < f + 1"
    unfolding f_def by linarith+
  then have "f / 10 - x \<le> 1 / 20" and "- (1 / 20) \<le> f / 10 - x"
    by linarith+
  moreover have "toFixed1 x = f / 10"
    using False by (simp only: toFixed1_def f_def if_False)
  ultimately show ?thesis
    by (simp only: abs_le_iff) simp
qed

text \<open>
  Claim C8. With five years, \<open>generateTrendData\<close> returns one series per input record,
  in order, each with the record's country and region and exactly five points, for the
  years \<open>currentYear - 4\<close> to \<open>currentYear\<close> in strictly ascending order. The point of
  year \<open>currentYear - 4 + j\<close> of the \<open>i\<close>-th record is computed from the draw of number
  \<open>5 * i + j\<close>; in the point of the present year the year factor is 1, so each of its four
  metrics is the record's metric times the random factor of that one draw, rounded to one
  decimal place (a multiple of a tenth, at most a twentieth away).
\<close>

theorem generateTrendData_five_points:
  "\<exists>series.
     generateTrendData currentYear rand currentData (Some 5) = Inr series \<and>
     length series = length currentData \<and>
     (\<forall>i < length currentData.
        ct_country (series ! i) = country (currentData ! i) \<and>
        ct_region (series ! i) = region (currentData ! i) \<and>
        length (ct_trendData (series ! i)) = 5 \<and>
        map tp_year (ct_trendData (series ! i)) =
          [currentYear - 4, currentYear - 3, currentYear - 2, currentYear - 1, currentYear] \<and>
        sorted_wrt (<) (map tp_year (ct_trendData (series ! i))) \<and>
        (\<forall>j < 5. ct_trendData (series ! i) ! j =
           trendPoint (currentData ! i) currentYear (currentYear - 4 + int j) (rand (5 * i + j))) \<and>
        ct_trendData (series ! i) ! 4 =
          \<lparr>tp_year = currentYear,
           tp_combinedFigures =
             toFixed1 (combinedFigures (currentData ! i) * randomFactor (rand (5 * i + 4))),
           tp_householdEstimatePerCapita =
             toFixed1 (householdEstimatePerCapita (currentData ! i) * randomFactor (rand (5 * i + 4))),
           tp_retailEstimatePerCapita =
             toFixed1 (retailEstimatePerCapita (currentData ! i) * randomFactor (rand (5 * i + 4))),
           tp_foodServiceEstimatePerCapita =
             toFixed1 (foodServiceEstimatePerCapita (currentData ! i) *
                       randomFactor (rand (5 * i + 4)))\<rparr>) \<and>
     (\<forall>x. \<exists>n::int. toFixed1 x = real_of_int n / 10 \<and> \<bar>toFixed1 x - x\<bar> \<le> 1 / 20)"
proof -
  let ?series = "mapCountries currentYear (currentYear - 4) rand 0 currentData"
  have g: "generateTrendData currentYear rand currentData (Some 5) = Inr ?series"
    by (simp add: generateTrendData_def Let_def)
  have n: "nat (currentYear + 1 - (currentYear - 4)) = 5"
    by simp
  have s: "?series ! i = seriesOf currentYear (currentYear - 4) rand (5 * i) (currentData ! i)"
    if "i < length currentData" for i
    using nth_mapCountries [OF that, of currentYear "currentYear - 4" rand 0]
    by (simp only: n) (simp add: mult.commute)
  have pts: "ct_trendData (?series ! i) =
      [trendPoint (currentData ! i) currentYear (currentYear - 4) (rand (5 * i)),
       trendPoint (currentData ! i) currentYear (currentYear - 3) (rand (5 * i + 1)),
       trendPoint (currentData ! i) currentYear (currentYear - 2) (rand (5 * i + 2)),
       trendPoint (currentData ! i) currentYear (currentYear - 1) (rand (5 * i + 3)),
       trendPoint (currentData ! i) currentYear currentYear (rand (5 * i + 4))]"
    if "i < length currentData" for i
    unfolding s [OF that] seriesOf_def n upt_5 by simp
  have last: "trendPoint item currentYear currentYear u =
      \<lparr>tp_year = currentYear,
       tp_combinedFigures = toFixed1 (combinedFigures item * randomFactor u),
       tp_householdEstimatePerCapita = toFixed1 (householdEstimatePerCapita item * randomFactor u),
       tp_retailEstimatePerCapita = toFixed1 (retailEstimatePerCapita item * randomFactor u),
       tp_foodServiceEstimatePerCapita =
         toFixed1 (foodServiceEstimatePerCapita item * randomFactor u)\<rparr>" for item u
    by (simp add: trendPoint_def yearFactor_def Let_def)
  have j5: "j < 5 \<longleftrightarrow> j = 0 \<or> j = 1 \<or> j = 2 \<or> j = 3 \<or> j = (4::nat)" for j
    by auto
  have "length ?series = length currentData"
    by (rule length_mapCountries)
  moreover have "\<forall>i < length currentData.
        ct_country (?series ! i) = country (currentData ! i) \<and>
        ct_region (?series ! i) = region (currentData ! i) \<and>
        length (ct_trendData (?series ! i)) = 5 \<and>
        map tp_year (ct_trendData (?series ! i)) =
          [currentYear - 4, currentYear - 3, currentYear - 2, currentYear - 1, currentYear] \<and>
        sorted_wrt (<) (map tp_year (ct_trendData (?series ! i))) \<and>
        (\<forall>j < 5. ct_trendData (?series ! i) ! j =
           trendPoint (currentData ! i) currentYear (currentYear - 4 + int j) (rand (5 * i + j))) \<and>
        ct_trendData (?series ! i) ! 4 =
          \<lparr>tp_year = currentYear,
           tp_combinedFigures =
             toFixed1 (combinedFigures (currentData ! i) * randomFactor (rand (5 * i + 4))),
           tp_householdEstimatePerCapita =
             toFixed1 (householdEstimatePerCapita (currentData ! i) * randomFactor (rand (5 * i + 4))),
           tp_retailEstimatePerCapita =
             toFixed1 (retailEstimatePerCapita (currentData ! i) * randomFactor (rand (5 * i + 4))),
           tp_foodServiceEstimatePerCapita =
             toFixed1 (foodServiceEstimatePerCapita (currentData ! i) *
                       randomFactor (rand (5 * i + 4)))\<rparr>"
  proof (intro allI impI)
    fix i assume i: "i < length currentData"
    have c: "ct_country (?series ! i) = country (currentData ! i)"
      and r: "ct_region (?series ! i) = region (currentData ! i)"
      by (simp_all add: s [OF i] seriesOf_def)
    have js: "\<forall>j < 5. ct_trendData (?series ! i) ! j =
           trendPoint (currentData ! i) currentYear (currentYear - 4 + int j) (rand (5 * i + j))"
      unfolding pts [OF i] j5 by auto
    have l: "ct_trendData (?series ! i) ! 4 = trendPoint (currentData ! i) currentYear currentYear (rand (5 * i + 4))"
      unfolding pts [OF i] by simp
    show "ct_country (?series ! i) = country (currentData ! i) \<and>
        ct_region (?series ! i) = region (currentData ! i) \<and>
        length (ct_trendData (?series ! i)) = 5 \<and>
        map tp_year (ct_trendData (?series ! i)) =
          [currentYear - 4, currentYear - 3, currentYear - 2, currentYear - 1, currentYear] \<and>
        sorted_wrt (<) (map tp_year (ct_trendData (?series ! i))) \<and>
        (\<forall>j < 5. ct_trendData (?series ! i) ! j =
           trendPoint (currentData ! i) currentYear (currentYear - 4 + int j) (rand (5 * i + j))) \<and>
        ct_trendData (?series ! i) ! 4 =
          \<lparr>tp_year = currentYear,
           tp_combinedFigures =
             toFixed1 (combinedFigures (currentData ! i) * randomFactor (rand (5 * i + 4))),
           tp_householdEstimatePerCapita =
             toFixed1 (householdEstimatePerCapita (currentData ! i) * randomFactor (rand (5 * i + 4))),
           tp_retailEstimatePerCapita =
             toFixed1 (retailEstimatePerCapita (currentData ! i) * randomFactor (rand (5 * i + 4))),
           tp_foodServiceEstimatePerCapita =
             toFixed1 (foodServiceEstimatePerCapita (currentData ! i) *
                       randomFactor (rand (5 * i + 4)))\<rparr>"
      apply (intro conjI)
            apply (rule c)
           apply (rule r)
          apply (simp add: pts [OF i])
         apply (simp add: pts [OF i])
        apply (simp add: pts [OF i])
       apply (rule js)
      apply (simp only: l last)
      done
  qed
  moreover have "\<forall>x. \<exists>n::int. toFixed1 x = real_of_int n / 10 \<and> \<bar>toFixed1 x - x\<bar> \<le> 1 / 20"
    using toFixed1_tenths toFixed1_close by blast
  ultimately show ?thesis using g by blast
qed

text \<open>
  The theorem on record A in 2026 with every draw equal to one half, so that the random
  factor is 1: the present year's point carries A's own figures.
\<close>

theorem generateTrendData_five_points_witness:
  "(0::nat) < length [recordA] \<and>
   (\<exists>series.
      generateTrendData 2026 (\<lambda>k. 1 / 2) [recordA] (Some 5) = Inr series \<and>
      length series = 1 \<and>
      ct_country (series ! 0) = ''A'' \<and>
      map tp_year (ct_trendData (series ! 0)) = [2022, 2023, 2024, 2025, 2026] \<and>
      ct_trendData (series ! 0) ! 4 =
        \<lparr>tp_year = 2026, tp_combinedFigures = 100, tp_householdEstimatePerCapita = 60,
         tp_retailEstimatePerCapita = 20, tp_foodServiceEstimatePerCapita = 20\<rparr>)"
proof -
  from generateTrendData_five_points [of 2026 "\<lambda>k. 1 / 2" "[recordA]"]
  obtain series where g: "generateTrendData 2026 (\<lambda>k. 1 / 2) [recordA] (Some 5) = Inr series"
    and l: "length series = length [recordA]"
    and a: "\<forall>i < length [recordA].
        ct_country (series ! i) = country ([recordA] ! i) \<and>
        ct_region (series ! i) = region ([recordA] ! i) \<and>
        length (ct_trendData (series ! i)) = 5 \<and>
        map tp_year (ct_trendData (series ! i)) = [2026 - 4, 2026 - 3, 2026 - 2, 2026 - 1, 2026] \<and>
        sorted_wrt (<) (map tp_year (ct_trendData (series ! i))) \<and>
        (\<forall>j < 5. ct_trendData (series ! i) ! j =
           trendPoint ([recordA] ! i) 2026 (2026 - 4 + int j) (1 / 2)) \<and>
        ct_trendData (series ! i) ! 4 =
          \<lparr>tp_year = 2026,
           tp_combinedFigures = toFixed1 (combinedFigures ([recordA] ! i) * randomFactor (1 / 2)),
           tp_householdEstimatePerCapita =
             toFixed1 (householdEstimatePerCapita ([recordA] ! i) * randomFactor (1 / 2)),
           tp_retailEstimatePerCapita =
             toFixed1 (retailEstimatePerCapita ([recordA] ! i) * randomFactor (1 / 2)),
           tp_foodServiceEstimatePerCapita =
             toFixed1 (foodServiceEstimatePerCapita ([recordA] ! i) * randomFactor (1 / 2))\<rparr>"
    by blast
  have "(0::nat) < length [recordA]" by simp
  with a have "ct_country (series ! 0) = country ([recordA] ! 0) \<and>
        map tp_year (ct_trendData (series ! 0)) = [2026 - 4, 2026 - 3, 2026 - 2, 2026 - 1, 2026] \<and>
        ct_trendData (series ! 0) ! 4 =
          \<lparr>tp_year = 2026,
           tp_combinedFigures = toFixed1 (combinedFigures ([recordA] ! 0) * randomFactor (1 / 2)),
           tp_householdEstimatePerCapita =
             toFixed1 (householdEstimatePerCapita ([recordA] ! 0) * randomFactor (1 / 2)),
           tp_retailEstimatePerCapita =
             toFixed1 (retailEstimatePerCapita ([recordA] ! 0) * randomFactor (1 / 2)),
           tp_foodServiceEstimatePerCapita =
             toFixed1 (foodServiceEstimatePerCapita ([recordA] ! 0) * randomFactor (1 / 2))\<rparr>"
    by blast
  then have "ct_country (series ! 0) = ''A'' \<and>
      map tp_year (ct_trendData (series ! 0)) = [2022, 2023, 2024, 2025, 2026] \<and>
      ct_trendData (series ! 0) ! 4 =
        \<lparr>tp_year = 2026, tp_combinedFigures = 100, tp_householdEstimatePerCapita = 60,
         tp_retailEstimatePerCapita = 20, tp_foodServiceEstimatePerCapita = 20\<rparr>"
    by (simp add: recordA_def exampleRecord_def randomFactor_def toFixed1_def)
  with g l show ?thesis by simp
qed

text \<open>
  Claim C7, as amended. The source validates nothing and throws nowhere: with fewer than
  one year the loop over the years does not run, and \<open>generateTrendData\<close> returns one
  series per record, each with an empty list of points.
\<close>

theorem generateTrendData_no_years:
  "years < 1 \<Longrightarrow>
   generateTrendData currentYear rand currentData (Some years) =
     Inr (map (\<lambda>item. \<lparr>ct_country = country item, ct_region = region item, ct_trendData = []\<rparr>)
            currentData)"
  by (simp add: generateTrendData_def Let_def mapCountries_no_years)

text \<open>The theorem for zero years on records A and B.\<close>

theorem generateTrendData_no_years_witness:
  "(0::int) < 1 \<and>
   generateTrendData 2026 (\<lambda>k. 1 / 2) [recordA, recordB] (Some 0) =
     Inr [\<lparr>ct_country = ''A'', ct_region = ''X'', ct_trendData = []\<rparr>,
          \<lparr>ct_country = ''B'', ct_region = ''X'', ct_trendData = []\<rparr>]"
  using generateTrendData_no_years [of 0 2026 "\<lambda>k. 1 / 2" "[recordA, recordB]"]
  by (simp add: recordA_def recordB_def exampleRecord_def)

text \<open>
  Claim C7, as stated, fails: for zero years the call returns a list of series, it does
  not fail with \<open>InvalidArgument\<close>.
\<close>

theorem generateTrendData_does_not_fail:
  "generateTrendData 2026 (\<lambda>k. 1 / 2) [recordA] (Some 0) =
     Inr [\<lparr>ct_country = ''A'', ct_region = ''X'', ct_trendData = []\<rparr>] \<and>
   generateTrendData 2026 (\<lambda>k. 1 / 2) [recordA] (Some 0) \<noteq> Inl InvalidArgument"
  by (simp add: generateTrendData_def Let_def yearLoop.simps recordA_def exampleRecord_def)

subsection \<open>The default sort order on four-digit years\<close>

lemma of_char_digitChar: "d < 10 \<Longrightarrow> of_char (digitChar d) = 48 + d"
proof -
  assume "d < 10"
  then have "d = 0 \<or> d = 1 \<or> d = 2 \<or> d = 3 \<or> d = 4 \<or> d = 5 \<or> d = 6 \<or> d = 7 \<or> d = 8 \<or> d = 9"
    by arith
  then show ?thesis
    by (elim disjE) (simp_all add: digitChar_def)
qed

lemma digitChar_less_iff: "a < 10 \<Longrightarrow> b < 10 \<Longrightarrow> digitChar a < digitChar b \<longleftrightarrow> a < b"
  by (simp add: less_char_def of_char_digitChar)

lemma digitChar_eq_iff: "a < 10 \<Longrightarrow> b < 10 \<Longrightarrow> digitChar a = digitChar b \<longleftrightarrow> a = b"
proof
  assume "a < 10" "b < 10" "digitChar a = digitChar b"
  then have "(of_char (digitChar a) :: nat) = of_char (digitChar b)" by simp
  with \<open>a < 10\<close> \<open>b < 10\<close> show "a = b" by (simp add: of_char_digitChar)
qed simp

lemma natToString_small: "n < 10 \<Longrightarrow> natToString n = [digitChar n]"
  by (simp add: natToString.simps)

lemma natToString_large:
  "\<not> n < 10 \<Longrightarrow> natToString n = natToString (n div 10) @ [digitChar (n mod 10)]"
  by (subst natToString.simps) simp

lemma natToString_nonempty: "natToString n \<noteq> []"
  by (cases "n < 10") (simp_all add: natToString_small natToString_large)

lemma length_natToString_one: "length (natToString n) = Suc 0 \<longleftrightarrow> n < 10"
  by (cases "n < 10") (simp_all add: natToString_small natToString_large natToString_nonempty)

lemma less_snoc_same_length:
  "length xs = length ys \<Longrightarrow> (xs @ [x] < ys @ [y]) = (xs < ys \<or> xs = ys \<and> x < y)"
  for x :: "'a::linorder"
  by (induction xs ys rule: list_induct2) auto

lemma less_by_digits:
  fixes a b :: nat
  shows "a < b \<longleftrightarrow> a div 10 < b div 10 \<or> a div 10 = b div 10 \<and> a mod 10 < b mod 10"
proof -
  define qa ra qb rb where "qa = a div 10" and "ra = a mod 10" and "qb = b div 10" and "rb = b mod 10"
  have "a = 10 * qa + ra" "b = 10 * qb + rb" "ra < 10" "rb < 10"
    by (simp_all add: qa_def ra_def qb_def rb_def)
  then have "a < b \<longleftrightarrow> qa < qb \<or> qa = qb \<and> ra < rb"
    by arith
  then show ?thesis
    by (simp only: qa_def ra_def qb_def rb_def)
qed

lemma eq_by_digits:
  fixes a b :: nat
  shows "a = b \<longleftrightarrow> a div 10 = b div 10 \<and> a mod 10 = b mod 10"
  by (metis div_mult_mod_eq)

lemma natToString_order:
  "length (natToString a) = length (natToString b) \<Longrightarrow>
   (natToString a < natToString b \<longleftrightarrow> a < b) \<and> (natToString a = natToString b \<longleftrightarrow> a = b)"
proof (induction a arbitrary: b rule: natToString.induct)
  case (1 a)
  show ?case
  proof (cases "a < 10")
    case True
    with "1.prems" have "b < 10"
      by (simp add: natToString_small length_natToString_one [symmetric])
    with True show ?thesis
      by (simp add: natToString_small digitChar_less_iff digitChar_eq_iff)
  next
    case False
    have "\<not> b < 10"
    proof
      assume "b < 10"
      then have "length (natToString a) = Suc 0"
        using "1.prems" by (simp add: natToString_small)
      with False show False by (simp add: length_natToString_one)
    qed
    have sa: "natToString a = natToString (a div 10) @ [digitChar (a mod 10)]"
      using False by (rule natToString_large)
    have sb: "natToString b = natToString (b div 10) @ [digitChar (b mod 10)]"
      using \<open>\<not> b < 10\<close> by (rule natToString_large)
    have len: "length (natToString (a div 10)) = length (natToString (b div 10))"
      using "1.prems" by (simp add: sa sb)
    from "1.IH" [OF False len]
    have ih1: "natToString (a div 10) < natToString (b div 10) \<longleftrightarrow> a div 10 < b div 10"
      and ih2: "natToString (a div 10) = natToString (b div 10) \<longleftrightarrow> a div 10 = b div 10"
      by simp_all
    have d1: "digitChar (a mod 10) < digitChar (b mod 10) \<longleftrightarrow> a mod 10 < b mod 10"
      by (simp add: digitChar_less_iff)
    have d2: "digitChar (a mod 10) = digitChar (b mod 10) \<longleftrightarrow> a mod 10 = b mod 10"
      by (simp add: digitChar_eq_iff)
    have "natToString a < natToString b \<longleftrightarrow> a < b"
      unfolding sa sb less_snoc_same_length [OF len] ih1 ih2 d1
      by (rule less_by_digits [symmetric])
    moreover have "natToString a = natToString b \<longleftrightarrow> a = b"
      unfolding sa sb by (simp add: ih2 d2 eq_by_digits [of a b])
    ultimately show ?thesis by simp
  qed
qed

lemma length_natToString_four: "1000 \<le> n \<Longrightarrow> n \<le> 9999 \<Longrightarrow> length (natToString n) = 4"
proof -
  assume n: "1000 \<le> n" "n \<le> 9999"
  have 1: "natToString n = natToString (n div 10) @ [digitChar (n mod 10)]"
    using n by (intro natToString_large) simp
  have 2: "natToString (n div 10) = natToString (n div 10 div 10) @ [digitChar (n div 10 mod 10)]"
    using n by (intro natToString_large) simp
  have 3: "natToString (n div 10 div 10) =
           natToString (n div 10 div 10 div 10) @ [digitChar (n div 10 div 10 mod 10)]"
    using n by (intro natToString_large) simp
  have 4: "natToString (n div 10 div 10 div 10) = [digitChar (n div 10 div 10 div 10)]"
    using n by (intro natToString_small) simp
  show ?thesis
    by (simp add: 1 2 3 4)
qed

lemma defaultCompare_le_iff:
  "defaultCompare x y \<le> 0 \<longleftrightarrow> \<not> js_toString y < js_toString x"
  by (auto simp: defaultCompare_def Let_def)

lemma defaultCompare_four_digits:
  assumes "1000 \<le> x" "x \<le> 9999" "1000 \<le> y" "y \<le> 9999"
  shows "defaultCompare x y \<le> 0 \<longleftrightarrow> x \<le> y"
proof -
  have "length (natToString (nat y)) = length (natToString (nat x))"
    using assms by (simp add: length_natToString_four)
  then have "natToString (nat y) < natToString (nat x) \<longleftrightarrow> nat y < nat x"
    using natToString_order by blast
  with assms show ?thesis
    by (simp add: defaultCompare_le_iff js_toString_def) linarith
qed

lemma js_sort_four_digits:
  assumes "\<forall>y \<in> set ys. 1000 \<le> y \<and> y \<le> 9999"
  shows "js_sort defaultCompare ys = sort ys"
proof -
  have "js_sort defaultCompare ys = sort_key (\<lambda>y. y) ys"
    by (rule js_sort_sort_key) (use assms in \<open>simp add: defaultCompare_four_digits\<close>)
  then show ?thesis by simp
qed

subsection \<open>getGlobalTrendData and getRegionalTrendData\<close>

lemma set_allYears:
  "set (allYears trendData) = (\<Union>c \<in> set trendData. tp_year ` set (ct_trendData c))"
  by (simp add: allYears_def set_js_sort set_Set_from)

lemma distinct_allYears: "distinct (allYears trendData)"
proof -
  have "mset (allYears trendData) =
        mset (Set_from (concat (map (\<lambda>c. map tp_year (ct_trendData c)) trendData)))"
    by (simp add: allYears_def mset_js_sort)
  then show ?thesis
    by (metis distinct_Set_from mset_eq_imp_distinct_iff)
qed

lemma set_yearDataPoints:
  "set (yearDataPoints trendData year) =
     {point. \<exists>c \<in> set trendData. point \<in> set (ct_trendData c) \<and> tp_year point = year}"
  by (auto simp: yearDataPoints_def)

lemma yearDataPoints_nonempty:
  "year \<in> set (allYears trendData) \<Longrightarrow> yearDataPoints trendData year \<noteq> []"
proof -
  assume "year \<in> set (allYears trendData)"
  then obtain c point where "c \<in> set trendData" "point \<in> set (ct_trendData c)" "tp_year point = year"
    by (auto simp: set_allYears)
  then have "point \<in> set (yearDataPoints trendData year)"
    by (auto simp: set_yearDataPoints)
  then show ?thesis by auto
qed

lemma yearAverage_eq:
  assumes "yearDataPoints trendData year \<noteq> []"
  shows "yearAverage trendData year =
     \<lparr>tp_year = year,
      tp_combinedFigures =
        Some (toFixed1 (sum_list (map tp_combinedFigures (yearDataPoints trendData year)) /
                        real (length (yearDataPoints trendData year)))),
      tp_householdEstimatePerCapita =
        Some (toFixed1 (sum_list (map tp_householdEstimatePerCapita (yearDataPoints trendData year)) /
                        real (length (yearDataPoints trendData year)))),
      tp_retailEstimatePerCapita =
        Some (toFixed1 (sum_list (map tp_retailEstimatePerCapita (yearDataPoints trendData year)) /
                        real (length (yearDataPoints trendData year)))),
      tp_foodServiceEstimatePerCapita =
        Some (toFixed1 (sum_list (map tp_foodServiceEstimatePerCapita (yearDataPoints trendData year)) /
                        real (length (yearDataPoints trendData year))))\<rparr>"
  using assms by (simp add: yearAverage_def Let_def js_div_def foldl_add_sum_list)

lemma years_getGlobalTrendData:
  "map tp_year (getGlobalTrendData trendData) = allYears trendData"
  by (simp add: getGlobalTrendData_def comp_def yearAverage_def Let_def)

lemma member_getGlobalTrendData:
  assumes "p \<in> set (getGlobalTrendData trendData)"
  shows "tp_year p \<in> set (allYears trendData) \<and> p = yearAverage trendData (tp_year p)"
  using assms by (auto simp: getGlobalTrendData_def yearAverage_def Let_def)

text \<open>
  Claim C9, as amended. \<open>getGlobalTrendData\<close> returns one point per distinct year of the
  input series. Each of the four metrics of a point is the arithmetic mean over the data
  points of that year only (the divisor is their number, which is at least one, not the
  number of series), rounded to one decimal place. When every year of the input has four
  digits (1000 to 9999), the years of the result are in ascending order.
\<close>

theorem getGlobalTrendData_rounded_means:
  "distinct (map tp_year (getGlobalTrendData trendData)) \<and>
   set (map tp_year (getGlobalTrendData trendData)) =
     (\<Union>c \<in> set trendData. tp_year ` set (ct_trendData c)) \<and>
   (\<forall>p \<in> set (getGlobalTrendData trendData).
      yearDataPoints trendData (tp_year p) \<noteq> [] \<and>
      tp_combinedFigures p =
        Some (toFixed1 (sum_list (map tp_combinedFigures (yearDataPoints trendData (tp_year p))) /
                        real (length (yearDataPoints trendData (tp_year p))))) \<and>
      tp_householdEstimatePerCapita p =
        Some (toFixed1
               (sum_list (map tp_householdEstimatePerCapita (yearDataPoints trendData (tp_year p))) /
                real (length (yearDataPoints trendData (tp_year p))))) \<and>
      tp_retailEstimatePerCapita p =
        Some (toFixed1
               (sum_list (map tp_retailEstimatePerCapita (yearDataPoints trendData (tp_year p))) /
                real (length (yearDataPoints trendData (tp_year p))))) \<and>
      tp_foodServiceEstimatePerCapita p =
        Some (toFixed1
               (sum_list (map tp_foodServiceEstimatePerCapita (yearDataPoints trendData (tp_year p))) /
                real (length (yearDataPoints trendData (tp_year p)))))) \<and>
   ((\<forall>c \<in> set trendData. \<forall>q \<in> set (ct_trendData c). 1000 \<le> tp_year q \<and> tp_year q \<le> 9999) \<longrightarrow>
      sorted (map tp_year (getGlobalTrendData trendData)))"
proof (intro conjI ballI impI)
  show "distinct (map tp_year (getGlobalTrendData trendData))"
    by (simp only: years_getGlobalTrendData distinct_allYears)
  show "set (map tp_year (getGlobalTrendData trendData)) =
     (\<Union>c \<in> set trendData. tp_year ` set (ct_trendData c))"
    by (simp only: years_getGlobalTrendData set_allYears)
next
  fix p assume "p \<in> set (getGlobalTrendData trendData)"
  from member_getGlobalTrendData [OF this]
  have y: "tp_year p \<in> set (allYears trendData)" and p: "p = yearAverage trendData (tp_year p)"
    by simp_all
  show ne: "yearDataPoints trendData (tp_year p) \<noteq> []"
    using y by (rule yearDataPoints_nonempty)
  show "tp_combinedFigures p =
        Some (toFixed1 (sum_list (map tp_combinedFigures (yearDataPoints trendData (tp_year p))) /
                        real (length (yearDataPoints trendData (tp_year p)))))"
    by (subst p) (simp add: yearAverage_eq [OF ne])
  show "tp_householdEstimatePerCapita p =
        Some (toFixed1
               (sum_list (map tp_householdEstimatePerCapita (yearDataPoints trendData (tp_year p))) /
                real (length (yearDataPoints trendData (tp_year p)))))"
    by (subst p) (simp add: yearAverage_eq [OF ne])
  show "tp_retailEstimatePerCapita p =
        Some (toFixed1
               (sum_list (map tp_retailEstimatePerCapita (yearDataPoints trendData (tp_year p))) /
                real (length (yearDataPoints trendData (tp_year p)))))"
    by (subst p) (simp add: yearAverage_eq [OF ne])
  show "tp_foodServiceEstimatePerCapita p =
        Some (toFixed1
               (sum_list (map tp_foodServiceEstimatePerCapita (yearDataPoints trendData (tp_year p))) /
                real (length (yearDataPoints trendData (tp_year p)))))"
    by (subst p) (simp add: yearAverage_eq [OF ne])
next
  assume a: "\<forall>c \<in> set trendData. \<forall>q \<in> set (ct_trendData c). 1000 \<le> tp_year q \<and> tp_year q \<le> 9999"
  let ?ys = "Set_from (concat (map (\<lambda>c. map tp_year (ct_trendData c)) trendData))"
  have "\<forall>y \<in> set ?ys. 1000 \<le> y \<and> y \<le> 9999"
    using a by (auto simp: set_Set_from)
  then have "allYears trendData = sort ?ys"
    unfolding allYears_def by (rule js_sort_four_digits)
  then show "sorted (map tp_year (getGlobalTrendData trendData))"
    by (simp only: years_getGlobalTrendData sorted_sort)
qed

text \<open>Evaluation of the reducers on concrete series unfolds these definitions.\<close>

lemmas eval_trend =
  getGlobalTrendData_def getRegionalTrendData_def allYears_def Set_from_def Set_add_def
  defaultCompare_def js_toString_def natToString.simps digitChar_def yearAverage_def
  yearDataPoints_def js_div_def toFixed1_def constPoint_def Let_def

text \<open>
  The theorem on three series of the years 2025 and 2026: the year 2025 has one data
  point among three series and its mean is that point; the mean 4/3 of 2026 is rounded
  to 1.3.
\<close>

theorem getGlobalTrendData_rounded_means_witness:
  "map (\<lambda>c. map tp_year (ct_trendData c)) recentSeries = [[2026], [2025, 2026], [2026]] \<and>
   sorted (map tp_year (getGlobalTrendData recentSeries)) \<and>
   getGlobalTrendData recentSeries =
     [\<lparr>tp_year = 2025, tp_combinedFigures = Some 1, tp_householdEstimatePerCapita = Some 1,
       tp_retailEstimatePerCapita = Some 1, tp_foodServiceEstimatePerCapita = Some 1\<rparr>,
      \<lparr>tp_year = 2026, tp_combinedFigures = Some (13 / 10),
       tp_householdEstimatePerCapita = Some (13 / 10),
       tp_retailEstimatePerCapita = Some (13 / 10),
       tp_foodServiceEstimatePerCapita = Some (13 / 10)\<rparr>]"
proof -
  have h: "\<forall>c \<in> set recentSeries. \<forall>q \<in> set (ct_trendData c). 1000 \<le> tp_year q \<and> tp_year q \<le> 9999"
    by (simp add: recentSeries_def constPoint_def)
  with getGlobalTrendData_rounded_means [of recentSeries]
  have "sorted (map tp_year (getGlobalTrendData recentSeries))"
    by blast
  moreover have "getGlobalTrendData recentSeries =
     [\<lparr>tp_year = 2025, tp_combinedFigures = Some 1, tp_householdEstimatePerCapita = Some 1,
       tp_retailEstimatePerCapita = Some 1, tp_foodServiceEstimatePerCapita = Some 1\<rparr>,
      \<lparr>tp_year = 2026, tp_combinedFigures = Some (13 / 10),
       tp_householdEstimatePerCapita = Some (13 / 10),
       tp_retailEstimatePerCapita = Some (13 / 10),
       tp_foodServiceEstimatePerCapita = Some (13 / 10)\<rparr>]"
    by (simp add: recentSeries_def eval_trend)
  moreover have "map (\<lambda>c. map tp_year (ct_trendData c)) recentSeries = [[2026], [2025, 2026], [2026]]"
    by (simp add: recentSeries_def constPoint_def)
  ultimately show ?thesis by blast
qed

text \<open>
  Claim C9, as stated, fails twice on series with the years 999 and 1000. The years come
  out as 1000, 999: \<open>sort()\<close> without a comparator orders numbers by their decimal
  strings. And the metric of the year 1000 is 1.3, the mean 4/3 rounded to one decimal
  place, not the mean itself.
\<close>

theorem getGlobalTrendData_unsorted_rounded:
  "getGlobalTrendData exampleSeries =
     [\<lparr>tp_year = 1000, tp_combinedFigures = Some (13 / 10),
       tp_householdEstimatePerCapita = Some (13 / 10),
       tp_retailEstimatePerCapita = Some (13 / 10),
       tp_foodServiceEstimatePerCapita = Some (13 / 10)\<rparr>,
      \<lparr>tp_year = 999, tp_combinedFigures = Some 1, tp_householdEstimatePerCapita = Some 1,
       tp_retailEstimatePerCapita = Some 1, tp_foodServiceEstimatePerCapita = Some 1\<rparr>] \<and>
   \<not> sorted (map tp_year (getGlobalTrendData exampleSeries)) \<and>
   sum_list (map tp_combinedFigures (yearDataPoints exampleSeries 1000)) /
     real (length (yearDataPoints exampleSeries 1000)) = 4 / 3 \<and>
   tp_combinedFigures (getGlobalTrendData exampleSeries ! 0) \<noteq> Some (4 / 3)"
  by (simp add: exampleSeries_def eval_trend)

text \<open>
  Claim C10. Every year that \<open>getGlobalTrendData\<close> averages over is the year of some
  point of some input series, so the number of data points it divides by is at least one
  and the four metrics of every returned point are finite; and
  \<open>getRegionalTrendData\<close> for a region that no series has returns the empty list.
\<close>

theorem getGlobalTrendData_never_divides_by_zero:
  "(\<forall>y \<in> set (allYears trendData).
      (\<exists>c \<in> set trendData. \<exists>q \<in> set (ct_trendData c). tp_year q = y) \<and>
      1 \<le> length (yearDataPoints trendData y)) \<and>
   (\<forall>p \<in> set (getGlobalTrendData trendData).
      (\<exists>c \<in> set trendData. \<exists>q \<in> set (ct_trendData c). tp_year q = tp_year p) \<and>
      1 \<le> length (yearDataPoints trendData (tp_year p)) \<and>
      tp_combinedFigures p \<noteq> None \<and> tp_householdEstimatePerCapita p \<noteq> None \<and>
      tp_retailEstimatePerCapita p \<noteq> None \<and> tp_foodServiceEstimatePerCapita p \<noteq> None) \<and>
   ((\<forall>c \<in> set trendData. ct_region c \<noteq> region') \<longrightarrow>
      getRegionalTrendData trendData region' = [])"
proof (intro conjI ballI impI)
  fix y assume y: "y \<in> set (allYears trendData)"
  then show "\<exists>c \<in> set trendData. \<exists>q \<in> set (ct_trendData c). tp_year q = y"
    by (auto simp: set_allYears)
  from yearDataPoints_nonempty [OF y]
  show "1 \<le> length (yearDataPoints trendData y)"
    by (simp add: Suc_le_eq)
next
  fix p assume "p \<in> set (getGlobalTrendData trendData)"
  from member_getGlobalTrendData [OF this]
  have y: "tp_year p \<in> set (allYears trendData)" and p: "p = yearAverage trendData (tp_year p)"
    by simp_all
  have ne: "yearDataPoints trendData (tp_year p) \<noteq> []"
    using y by (rule yearDataPoints_nonempty)
  show "\<exists>c \<in> set trendData. \<exists>q \<in> set (ct_trendData c). tp_year q = tp_year p"
    using y by (fastforce simp: set_allYears)
  show "1 \<le> length (yearDataPoints trendData (tp_year p))"
    using ne by (simp add: Suc_le_eq)
  show "tp_combinedFigures p \<noteq> None"
    by (subst p) (simp add: yearAverage_eq [OF ne])
  show "tp_householdEstimatePerCapita p \<noteq> None"
    by (subst p) (simp add: yearAverage_eq [OF ne])
  show "tp_retailEstimatePerCapita p \<noteq> None"
    by (subst p) (simp add: yearAverage_eq [OF ne])
  show "tp_foodServiceEstimatePerCapita p \<noteq> None"
    by (subst p) (simp add: yearAverage_eq [OF ne])
next
  assume "\<forall>c \<in> set trendData. ct_region c \<noteq> region'"
  then have "filter (\<lambda>c. ct_region c = region') trendData = []"
    by (simp add: filter_empty_conv)
  then show "getRegionalTrendData trendData region' = []"
    by (simp add: getRegionalTrendData_def getGlobalTrendData_def allYears_def Set_from_def)
qed

text \<open>
  The theorem on the example series: no series has the region Q; the region Y has one
  series, with one point; the year 999 has one data point.
\<close>

theorem getGlobalTrendData_never_divides_by_zero_witness:
  "map ct_region exampleSeries = [''X'', ''X'', ''Y''] \<and>
   getRegionalTrendData exampleSeries ''Q'' = [] \<and>
   getRegionalTrendData exampleSeries ''Y'' =
     [\<lparr>tp_year = 1000, tp_combinedFigures = Some 2, tp_householdEstimatePerCapita = Some 2,
       tp_retailEstimatePerCapita = Some 2, tp_foodServiceEstimatePerCapita = Some 2\<rparr>] \<and>
   length (yearDataPoints exampleSeries 999) = 1"
proof -
  have h: "\<forall>c \<in> set exampleSeries. ct_region c \<noteq> ''Q''"
    by (simp add: exampleSeries_def)
  with getGlobalTrendData_never_divides_by_zero [of exampleSeries "''Q''"]
  have "getRegionalTrendData exampleSeries ''Q'' = []"
    by blast
  moreover have "getRegionalTrendData exampleSeries ''Y'' =
     [\<lparr>tp_year = 1000, tp_combinedFigures = Some 2, tp_householdEstimatePerCapita = Some 2,
       tp_retailEstimatePerCapita = Some 2, tp_foodServiceEstimatePerCapita = Some 2\<rparr>]"
    by (simp add: exampleSeries_def eval_trend)
  moreover have "length (yearDataPoints exampleSeries 999) = 1"
    by (simp add: exampleSeries_def eval_trend)
  moreover have "map ct_region exampleSeries = [''X'', ''X'', ''Y'']"
    by (simp add: exampleSeries_def)
  ultimately show ?thesis by blast
qed

end
